theory Spec2Isabelle
  imports Main "HOL-Library.Sublist" "HOL-Library.AList"
begin

section \<open>Python strings\<close>

text \<open>
  A Python \<open>str\<close> is a sequence of Unicode code points, and every string operation of
  \<open>memory/enhanced_memory.py\<close> (\<open>len\<close>, \<open>in\<close>, \<open>split\<close>, \<open>strip\<close>, \<open>lower\<close>) counts
  code points. The source's literals go beyond Latin-1 (the bullet U+2022), so a string is
  a list of code points, not of bytes. A literal is written with \<open>ascii\<close> for its ASCII
  runs and the code points of the other characters in between: the keyword for
  "correlation" in Portuguese, with its c-cedilla (231) and a-tilde (227), is
  \<open>ascii ''correla'' @ [231, 227] @ ascii ''o''\<close>.
\<close>

type_synonym pystr = "int list"

definition ascii :: "string \<Rightarrow> pystr" where
  "ascii = map of_char"

text \<open>\<open>sub in s\<close>: \<open>sub\<close> occurs in \<open>s\<close> as a contiguous run (the empty string always does).\<close>

definition str_contains :: "pystr \<Rightarrow> pystr \<Rightarrow> bool" where
  "str_contains sub s = sublist sub s"

definition startswith :: "pystr \<Rightarrow> pystr \<Rightarrow> bool" where
  "startswith s p = prefix p s"

text \<open>\<open>any(w in s for w in words)\<close>\<close>

definition any_in :: "pystr list \<Rightarrow> pystr \<Rightarrow> bool" where
  "any_in words s = list_ex (\<lambda>w. str_contains w s) words"

subsection \<open>Letter case\<close>

text \<open>
  \<open>str.lower\<close> and \<open>str.title\<close> follow the case tables of the Unicode character database
  (here in the version 14.0.0 that CPython 3.11 carries). A row \<open>(lo, hi, stride, delta)\<close>
  of a mapping table stands for the code points \<open>lo, lo + stride, \<dots>, hi\<close>, each of which
  is mapped to itself plus \<open>delta\<close>; a row \<open>(lo, hi)\<close> of a property table stands for the
  code points from \<open>lo\<close> to \<open>hi\<close>. The rows are in rising order of \<open>lo\<close>.
\<close>

fun case_delta :: "(int \<times> int \<times> int \<times> int) list \<Rightarrow> int \<Rightarrow> int option" where
  "case_delta [] c = None"
| "case_delta ((lo, hi, stride, delta) # rows) c =
     (if c < lo then None
      else if c \<le> hi \<and> (c - lo) mod stride = 0 then Some delta
      else case_delta rows c)"

fun in_ranges :: "(int \<times> int) list \<Rightarrow> int \<Rightarrow> bool" where
  "in_ranges [] c = False"
| "in_ranges ((lo, hi) # rows) c =
     (if c < lo then False else if c \<le> hi then True else in_ranges rows c)"

fun special_case :: "(int \<times> pystr) list \<Rightarrow> int \<Rightarrow> pystr option" where
  "special_case [] c = None"
| "special_case ((k, v) # rows) c =
     (if c < k then None else if c = k then Some v else special_case rows c)"

text \<open>The simple lower-case mapping (\<open>A\<close> to \<open>a\<close>, the Kelvin sign U+212A to \<open>k\<close>, ...).\<close>

definition lower_table :: "(int \<times> int \<times> int \<times> int) list" where
  "lower_table =
     [(65, 90, 1, 32), (192, 214, 1, 32), (216, 222, 1, 32), (256, 302, 2, 1),
      (306, 310, 2, 1), (313, 327, 2, 1), (330, 374, 2, 1), (376, 376, 1, - 121),
      (377, 381, 2, 1), (385, 385, 1, 210), (386, 388, 2, 1), (390, 390, 1, 206),
      (391, 391, 1, 1), (393, 394, 1, 205), (395, 395, 1, 1), (398, 398, 1, 79),
      (399, 399, 1, 202), (400, 400, 1, 203), (401, 401, 1, 1), (403, 403, 1, 205),
      (404, 404, 1, 207), (406, 406, 1, 211), (407, 407, 1, 209), (408, 408, 1, 1),
      (412, 412, 1, 211), (413, 413, 1, 213), (415, 415, 1, 214), (416, 420, 2, 1),
      (422, 422, 1, 218), (423, 423, 1, 1), (425, 425, 1, 218), (428, 428, 1, 1),
      (430, 430, 1, 218), (431, 431, 1, 1), (433, 434, 1, 217), (435, 437, 2, 1),
      (439, 439, 1, 219), (440, 440, 1, 1), (444, 444, 1, 1), (452, 452, 1, 2),
      (453, 453, 1, 1), (455, 455, 1, 2), (456, 456, 1, 1), (458, 458, 1, 2),
      (459, 475, 2, 1), (478, 494, 2, 1), (497, 497, 1, 2), (498, 500, 2, 1),
      (502, 502, 1, - 97), (503, 503, 1, - 56), (504, 542, 2, 1), (544, 544, 1, - 130),
      (546, 562, 2, 1), (570, 570, 1, 10795), (571, 571, 1, 1), (573, 573, 1, - 163),
      (574, 574, 1, 10792), (577, 577, 1, 1), (579, 579, 1, - 195), (580, 580, 1, 69),
      (581, 581, 1, 71), (582, 590, 2, 1), (880, 882, 2, 1), (886, 886, 1, 1),
      (895, 895, 1, 116), (902, 902, 1, 38), (904, 906, 1, 37), (908, 908, 1, 64),
      (910, 911, 1, 63), (913, 929, 1, 32), (931, 939, 1, 32), (975, 975, 1, 8),
      (984, 1006, 2, 1), (1012, 1012, 1, - 60), (1015, 1015, 1, 1), (1017, 1017, 1, - 7),
      (1018, 1018, 1, 1), (1021, 1023, 1, - 130), (1024, 1039, 1, 80), (1040, 1071, 1, 32),
      (1120, 1152, 2, 1), (1162, 1214, 2, 1), (1216, 1216, 1, 15), (1217, 1229, 2, 1),
      (1232, 1326, 2, 1), (1329, 1366, 1, 48), (4256, 4293, 1, 7264), (4295, 4295, 1, 7264),
      (4301, 4301, 1, 7264), (5024, 5103, 1, 38864), (5104, 5109, 1, 8), (7312, 7354, 1, - 3008),
      (7357, 7359, 1, - 3008), (7680, 7828, 2, 1), (7838, 7838, 1, - 7615), (7840, 7934, 2, 1),
      (7944, 7951, 1, - 8), (7960, 7965, 1, - 8), (7976, 7983, 1, - 8), (7992, 7999, 1, - 8),
      (8008, 8013, 1, - 8), (8025, 8031, 2, - 8), (8040, 8047, 1, - 8), (8072, 8079, 1, - 8),
      (8088, 8095, 1, - 8), (8104, 8111, 1, - 8), (8120, 8121, 1, - 8), (8122, 8123, 1, - 74),
      (8124, 8124, 1, - 9), (8136, 8139, 1, - 86), (8140, 8140, 1, - 9), (8152, 8153, 1, - 8),
      (8154, 8155, 1, - 100), (8168, 8169, 1, - 8), (8170, 8171, 1, - 112), (8172, 8172, 1, - 7),
      (8184, 8185, 1, - 128), (8186, 8187, 1, - 126), (8188, 8188, 1, - 9), (8486, 8486, 1, - 7517),
      (8490, 8490, 1, - 8383), (8491, 8491, 1, - 8262), (8498, 8498, 1, 28), (8544, 8559, 1, 16),
      (8579, 8579, 1, 1), (9398, 9423, 1, 26), (11264, 11311, 1, 48), (11360, 11360, 1, 1),
      (11362, 11362, 1, - 10743), (11363, 11363, 1, - 3814), (11364, 11364, 1, - 10727), (11367, 11371, 2, 1),
      (11373, 11373, 1, - 10780), (11374, 11374, 1, - 10749), (11375, 11375, 1, - 10783), (11376, 11376, 1, - 10782),
      (11378, 11378, 1, 1), (11381, 11381, 1, 1), (11390, 11391, 1, - 10815), (11392, 11490, 2, 1),
      (11499, 11501, 2, 1), (11506, 11506, 1, 1), (42560, 42604, 2, 1), (42624, 42650, 2, 1),
      (42786, 42798, 2, 1), (42802, 42862, 2, 1), (42873, 42875, 2, 1), (42877, 42877, 1, - 35332),
      (42878, 42886, 2, 1), (42891, 42891, 1, 1), (42893, 42893, 1, - 42280), (42896, 42898, 2, 1),
      (42902, 42920, 2, 1), (42922, 42922, 1, - 42308), (42923, 42923, 1, - 42319), (42924, 42924, 1, - 42315),
      (42925, 42925, 1, - 42305), (42926, 42926, 1, - 42308), (42928, 42928, 1, - 42258), (42929, 42929, 1, - 42282),
      (42930, 42930, 1, - 42261), (42931, 42931, 1, 928), (42932, 42946, 2, 1), (42948, 42948, 1, - 48),
      (42949, 42949, 1, - 42307), (42950, 42950, 1, - 35384), (42951, 42953, 2, 1), (42960, 42960, 1, 1),
      (42966, 42968, 2, 1), (42997, 42997, 1, 1), (65313, 65338, 1, 32), (66560, 66599, 1, 40),
      (66736, 66771, 1, 40), (66928, 66938, 1, 39), (66940, 66954, 1, 39), (66956, 66962, 1, 39),
      (66964, 66965, 1, 39), (68736, 68786, 1, 64), (71840, 71871, 1, 32), (93760, 93791, 1, 32),
      (125184, 125217, 1, 34)]"

text \<open>
  The one code point whose lower case is more than one code point: capital I with dot
  above, U+0130.
\<close>

definition lower_special :: "(int \<times> pystr) list" where
  "lower_special =
     [(304, [105, 775])]"

definition to_lower_full :: "int \<Rightarrow> pystr" where
  "to_lower_full c =
     (case special_case lower_special c of
        Some cs \<Rightarrow> cs
      | None \<Rightarrow> (case case_delta lower_table c of None \<Rightarrow> [c] | Some d \<Rightarrow> [c + d]))"

text \<open>The code points with the property Cased.\<close>

definition cased_ranges :: "(int \<times> int) list" where
  "cased_ranges =
     [(65, 90), (97, 122), (170, 170), (181, 181), (186, 186), (192, 214),
      (216, 246), (248, 442), (444, 447), (452, 659), (661, 696), (704, 705),
      (736, 740), (837, 837), (880, 883), (886, 887), (890, 893), (895, 895),
      (902, 902), (904, 906), (908, 908), (910, 929), (931, 1013), (1015, 1153),
      (1162, 1327), (1329, 1366), (1376, 1416), (4256, 4293), (4295, 4295), (4301, 4301),
      (4304, 4346), (4349, 4351), (5024, 5109), (5112, 5117), (7296, 7304), (7312, 7354),
      (7357, 7359), (7424, 7615), (7680, 7957), (7960, 7965), (7968, 8005), (8008, 8013),
      (8016, 8023), (8025, 8025), (8027, 8027), (8029, 8029), (8031, 8061), (8064, 8116),
      (8118, 8124), (8126, 8126), (8130, 8132), (8134, 8140), (8144, 8147), (8150, 8155),
      (8160, 8172), (8178, 8180), (8182, 8188), (8305, 8305), (8319, 8319), (8336, 8348),
      (8450, 8450), (8455, 8455), (8458, 8467), (8469, 8469), (8473, 8477), (8484, 8484),
      (8486, 8486), (8488, 8488), (8490, 8493), (8495, 8500), (8505, 8505), (8508, 8511),
      (8517, 8521), (8526, 8526), (8544, 8575), (8579, 8580), (9398, 9449), (11264, 11492),
      (11499, 11502), (11506, 11507), (11520, 11557), (11559, 11559), (11565, 11565), (42560, 42605),
      (42624, 42653), (42786, 42887), (42891, 42894), (42896, 42954), (42960, 42961), (42963, 42963),
      (42965, 42969), (42997, 42998), (43000, 43002), (43824, 43866), (43868, 43880), (43888, 43967),
      (64256, 64262), (64275, 64279), (65313, 65338), (65345, 65370), (66560, 66639), (66736, 66771),
      (66776, 66811), (66928, 66938), (66940, 66954), (66956, 66962), (66964, 66965), (66967, 66977),
      (66979, 66993), (66995, 67001), (67003, 67004), (67456, 67456), (67459, 67461), (67463, 67504),
      (67506, 67514), (68736, 68786), (68800, 68850), (71840, 71903), (93760, 93823), (119808, 119892),
      (119894, 119964), (119966, 119967), (119970, 119970), (119973, 119974), (119977, 119980), (119982, 119993),
      (119995, 119995), (119997, 120003), (120005, 120069), (120071, 120074), (120077, 120084), (120086, 120092),
      (120094, 120121), (120123, 120126), (120128, 120132), (120134, 120134), (120138, 120144), (120146, 120485),
      (120488, 120512), (120514, 120538), (120540, 120570), (120572, 120596), (120598, 120628), (120630, 120654),
      (120656, 120686), (120688, 120712), (120714, 120744), (120746, 120770), (120772, 120779), (122624, 122633),
      (122635, 122654), (125184, 125251), (127280, 127305), (127312, 127337), (127344, 127369)]"

definition is_cased :: "int \<Rightarrow> bool" where
  "is_cased c = in_ranges cased_ranges c"

text \<open>The code points with the property Case_Ignorable.\<close>

definition case_ignorable_ranges :: "(int \<times> int) list" where
  "case_ignorable_ranges =
     [(39, 39), (46, 46), (58, 58), (94, 94), (96, 96), (168, 168),
      (173, 173), (175, 175), (180, 180), (183, 184), (688, 879), (884, 885),
      (890, 890), (900, 901), (903, 903), (1155, 1161), (1369, 1369), (1375, 1375),
      (1425, 1469), (1471, 1471), (1473, 1474), (1476, 1477), (1479, 1479), (1524, 1524),
      (1536, 1541), (1552, 1562), (1564, 1564), (1600, 1600), (1611, 1631), (1648, 1648),
      (1750, 1757), (1759, 1768), (1770, 1773), (1807, 1807), (1809, 1809), (1840, 1866),
      (1958, 1968), (2027, 2037), (2042, 2042), (2045, 2045), (2070, 2093), (2137, 2139),
      (2184, 2184), (2192, 2193), (2200, 2207), (2249, 2306), (2362, 2362), (2364, 2364),
      (2369, 2376), (2381, 2381), (2385, 2391), (2402, 2403), (2417, 2417), (2433, 2433),
      (2492, 2492), (2497, 2500), (2509, 2509), (2530, 2531), (2558, 2558), (2561, 2562),
      (2620, 2620), (2625, 2626), (2631, 2632), (2635, 2637), (2641, 2641), (2672, 2673),
      (2677, 2677), (2689, 2690), (2748, 2748), (2753, 2757), (2759, 2760), (2765, 2765),
      (2786, 2787), (2810, 2815), (2817, 2817), (2876, 2876), (2879, 2879), (2881, 2884),
      (2893, 2893), (2901, 2902), (2914, 2915), (2946, 2946), (3008, 3008), (3021, 3021),
      (3072, 3072), (3076, 3076), (3132, 3132), (3134, 3136), (3142, 3144), (3146, 3149),
      (3157, 3158), (3170, 3171), (3201, 3201), (3260, 3260), (3263, 3263), (3270, 3270),
      (3276, 3277), (3298, 3299), (3328, 3329), (3387, 3388), (3393, 3396), (3405, 3405),
      (3426, 3427), (3457, 3457), (3530, 3530), (3538, 3540), (3542, 3542), (3633, 3633),
      (3636, 3642), (3654, 3662), (3761, 3761), (3764, 3772), (3782, 3782), (3784, 3789),
      (3864, 3865), (3893, 3893), (3895, 3895), (3897, 3897), (3953, 3966), (3968, 3972),
      (3974, 3975), (3981, 3991), (3993, 4028), (4038, 4038), (4141, 4144), (4146, 4151),
      (4153, 4154), (4157, 4158), (4184, 4185), (4190, 4192), (4209, 4212), (4226, 4226),
      (4229, 4230), (4237, 4237), (4253, 4253), (4348, 4348), (4957, 4959), (5906, 5908),
      (5938, 5939), (5970, 5971), (6002, 6003), (6068, 6069), (6071, 6077), (6086, 6086),
      (6089, 6099), (6103, 6103), (6109, 6109), (6155, 6159), (6211, 6211), (6277, 6278),
      (6313, 6313), (6432, 6434), (6439, 6440), (6450, 6450), (6457, 6459), (6679, 6680),
      (6683, 6683), (6742, 6742), (6744, 6750), (6752, 6752), (6754, 6754), (6757, 6764),
      (6771, 6780), (6783, 6783), (6823, 6823), (6832, 6862), (6912, 6915), (6964, 6964),
      (6966, 6970), (6972, 6972), (6978, 6978), (7019, 7027), (7040, 7041), (7074, 7077),
      (7080, 7081), (7083, 7085), (7142, 7142), (7144, 7145), (7149, 7149), (7151, 7153),
      (7212, 7219), (7222, 7223), (7288, 7293), (7376, 7378), (7380, 7392), (7394, 7400),
      (7405, 7405), (7412, 7412), (7416, 7417), (7468, 7530), (7544, 7544), (7579, 7679),
      (8125, 8125), (8127, 8129), (8141, 8143), (8157, 8159), (8173, 8175), (8189, 8190),
      (8203, 8207), (8216, 8217), (8228, 8228), (8231, 8231), (8234, 8238), (8288, 8292),
      (8294, 8303), (8305, 8305), (8319, 8319), (8336, 8348), (8400, 8432), (11388, 11389),
      (11503, 11505), (11631, 11631), (11647, 11647), (11744, 11775), (11823, 11823), (12293, 12293),
      (12330, 12333), (12337, 12341), (12347, 12347), (12441, 12446), (12540, 12542), (40981, 40981),
      (42232, 42237), (42508, 42508), (42607, 42610), (42612, 42621), (42623, 42623), (42652, 42655),
      (42736, 42737), (42752, 42785), (42864, 42864), (42888, 42890), (42994, 42996), (43000, 43001),
      (43010, 43010), (43014, 43014), (43019, 43019), (43045, 43046), (43052, 43052), (43204, 43205),
      (43232, 43249), (43263, 43263), (43302, 43309), (43335, 43345), (43392, 43394), (43443, 43443),
      (43446, 43449), (43452, 43453), (43471, 43471), (43493, 43494), (43561, 43566), (43569, 43570),
      (43573, 43574), (43587, 43587), (43596, 43596), (43632, 43632), (43644, 43644), (43696, 43696),
      (43698, 43700), (43703, 43704), (43710, 43711), (43713, 43713), (43741, 43741), (43756, 43757),
      (43763, 43764), (43766, 43766), (43867, 43871), (43881, 43883), (44005, 44005), (44008, 44008),
      (44013, 44013), (64286, 64286), (64434, 64450), (65024, 65039), (65043, 65043), (65056, 65071),
      (65106, 65106), (65109, 65109), (65279, 65279), (65287, 65287), (65294, 65294), (65306, 65306),
      (65342, 65342), (65344, 65344), (65392, 65392), (65438, 65439), (65507, 65507), (65529, 65531),
      (66045, 66045), (66272, 66272), (66422, 66426), (67456, 67461), (67463, 67504), (67506, 67514),
      (68097, 68099), (68101, 68102), (68108, 68111), (68152, 68154), (68159, 68159), (68325, 68326),
      (68900, 68903), (69291, 69292), (69446, 69456), (69506, 69509), (69633, 69633), (69688, 69702),
      (69744, 69744), (69747, 69748), (69759, 69761), (69811, 69814), (69817, 69818), (69821, 69821),
      (69826, 69826), (69837, 69837), (69888, 69890), (69927, 69931), (69933, 69940), (70003, 70003),
      (70016, 70017), (70070, 70078), (70089, 70092), (70095, 70095), (70191, 70193), (70196, 70196),
      (70198, 70199), (70206, 70206), (70367, 70367), (70371, 70378), (70400, 70401), (70459, 70460),
      (70464, 70464), (70502, 70508), (70512, 70516), (70712, 70719), (70722, 70724), (70726, 70726),
      (70750, 70750), (70835, 70840), (70842, 70842), (70847, 70848), (70850, 70851), (71090, 71093),
      (71100, 71101), (71103, 71104), (71132, 71133), (71219, 71226), (71229, 71229), (71231, 71232),
      (71339, 71339), (71341, 71341), (71344, 71349), (71351, 71351), (71453, 71455), (71458, 71461),
      (71463, 71467), (71727, 71735), (71737, 71738), (71995, 71996), (71998, 71998), (72003, 72003),
      (72148, 72151), (72154, 72155), (72160, 72160), (72193, 72202), (72243, 72248), (72251, 72254),
      (72263, 72263), (72273, 72278), (72281, 72283), (72330, 72342), (72344, 72345), (72752, 72758),
      (72760, 72765), (72767, 72767), (72850, 72871), (72874, 72880), (72882, 72883), (72885, 72886),
      (73009, 73014), (73018, 73018), (73020, 73021), (73023, 73029), (73031, 73031), (73104, 73105),
      (73109, 73109), (73111, 73111), (73459, 73460), (78896, 78904), (92912, 92916), (92976, 92982),
      (92992, 92995), (94031, 94031), (94095, 94111), (94176, 94177), (94179, 94180), (110576, 110579),
      (110581, 110587), (110589, 110590), (113821, 113822), (113824, 113827), (118528, 118573), (118576, 118598),
      (119143, 119145), (119155, 119170), (119173, 119179), (119210, 119213), (119362, 119364), (121344, 121398),
      (121403, 121452), (121461, 121461), (121476, 121476), (121499, 121503), (121505, 121519), (122880, 122886),
      (122888, 122904), (122907, 122913), (122915, 122916), (122918, 122922), (123184, 123197), (123566, 123566),
      (123628, 123631), (125136, 125142), (125252, 125259), (127995, 127999), (917505, 917505), (917536, 917631),
      (917760, 917999)]"

definition is_case_ignorable :: "int \<Rightarrow> bool" where
  "is_case_ignorable c = in_ranges case_ignorable_ranges c"

text \<open>
  The capital sigma U+03A3 is the one letter whose lower case depends on its place: the
  final sigma U+03C2 when the nearest code point before it that is not case-ignorable is
  cased and the nearest such code point after it, if there is one, is not cased; the
  sigma U+03C3 otherwise. \<open>before\<close> is the text before the letter, nearest code point
  first, and \<open>after\<close> the text after it.
\<close>

definition final_sigma :: "pystr \<Rightarrow> pystr \<Rightarrow> bool" where
  "final_sigma before after =
     (case dropWhile is_case_ignorable before of
        [] \<Rightarrow> False
      | b # _ \<Rightarrow>
          is_cased b \<and>
          (case dropWhile is_case_ignorable after of [] \<Rightarrow> True | a # _ \<Rightarrow> \<not> is_cased a))"

definition lower_ucs4 :: "pystr \<Rightarrow> int \<Rightarrow> pystr \<Rightarrow> pystr" where
  "lower_ucs4 before c after =
     (if c = 931 then [if final_sigma before after then 962 else 963]
      else to_lower_full c)"

fun lower_from :: "pystr \<Rightarrow> pystr \<Rightarrow> pystr" where
  "lower_from before [] = []"
| "lower_from before (c # after) = lower_ucs4 before c after @ lower_from (c # before) after"

definition str_lower :: "pystr \<Rightarrow> pystr" where
  "str_lower s = lower_from [] s"

text \<open>
  \<open>str.title()\<close>: a code point that follows a cased code point goes to lower case, any
  other to title case (\<open>a\<close> to \<open>A\<close>, sharp s to \<open>Ss\<close>, ...).
\<close>

definition title_table :: "(int \<times> int \<times> int \<times> int) list" where
  "title_table =
     [(97, 122, 1, - 32), (181, 181, 1, 743), (224, 246, 1, - 32), (248, 254, 1, - 32),
      (255, 255, 1, 121), (257, 303, 2, - 1), (305, 305, 1, - 232), (307, 311, 2, - 1),
      (314, 328, 2, - 1), (331, 375, 2, - 1), (378, 382, 2, - 1), (383, 383, 1, - 300),
      (384, 384, 1, 195), (387, 389, 2, - 1), (392, 392, 1, - 1), (396, 396, 1, - 1),
      (402, 402, 1, - 1), (405, 405, 1, 97), (409, 409, 1, - 1), (410, 410, 1, 163),
      (414, 414, 1, 130), (417, 421, 2, - 1), (424, 424, 1, - 1), (429, 429, 1, - 1),
      (432, 432, 1, - 1), (436, 438, 2, - 1), (441, 441, 1, - 1), (445, 445, 1, - 1),
      (447, 447, 1, 56), (452, 452, 1, 1), (454, 454, 1, - 1), (455, 455, 1, 1),
      (457, 457, 1, - 1), (458, 458, 1, 1), (460, 476, 2, - 1), (477, 477, 1, - 79),
      (479, 495, 2, - 1), (497, 497, 1, 1), (499, 501, 2, - 1), (505, 543, 2, - 1),
      (547, 563, 2, - 1), (572, 572, 1, - 1), (575, 576, 1, 10815), (578, 578, 1, - 1),
      (583, 591, 2, - 1), (592, 592, 1, 10783), (593, 593, 1, 10780), (594, 594, 1, 10782),
      (595, 595, 1, - 210), (596, 596, 1, - 206), (598, 599, 1, - 205), (601, 601, 1, - 202),
      (603, 603, 1, - 203), (604, 604, 1, 42319), (608, 608, 1, - 205), (609, 609, 1, 42315),
      (611, 611, 1, - 207), (613, 613, 1, 42280), (614, 614, 1, 42308), (616, 616, 1, - 209),
      (617, 617, 1, - 211), (618, 618, 1, 42308), (619, 619, 1, 10743), (620, 620, 1, 42305),
      (623, 623, 1, - 211), (625, 625, 1, 10749), (626, 626, 1, - 213), (629, 629, 1, - 214),
      (637, 637, 1, 10727), (640, 640, 1, - 218), (642, 642, 1, 42307), (643, 643, 1, - 218),
      (647, 647, 1, 42282), (648, 648, 1, - 218), (649, 649, 1, - 69), (650, 651, 1, - 217),
      (652, 652, 1, - 71), (658, 658, 1, - 219), (669, 669, 1, 42261), (670, 670, 1, 42258),
      (837, 837, 1, 84), (881, 883, 2, - 1), (887, 887, 1, - 1), (891, 893, 1, 130),
      (940, 940, 1, - 38), (941, 943, 1, - 37), (945, 961, 1, - 32), (962, 962, 1, - 31),
      (963, 971, 1, - 32), (972, 972, 1, - 64), (973, 974, 1, - 63), (976, 976, 1, - 62),
      (977, 977, 1, - 57), (981, 981, 1, - 47), (982, 982, 1, - 54), (983, 983, 1, - 8),
      (985, 1007, 2, - 1), (1008, 1008, 1, - 86), (1009, 1009, 1, - 80), (1010, 1010, 1, 7),
      (1011, 1011, 1, - 116), (1013, 1013, 1, - 96), (1016, 1016, 1, - 1), (1019, 1019, 1, - 1),
      (1072, 1103, 1, - 32), (1104, 1119, 1, - 80), (1121, 1153, 2, - 1), (1163, 1215, 2, - 1),
      (1218, 1230, 2, - 1), (1231, 1231, 1, - 15), (1233, 1327, 2, - 1), (1377, 1414, 1, - 48),
      (5112, 5117, 1, - 8), (7296, 7296, 1, - 6254), (7297, 7297, 1, - 6253), (7298, 7298, 1, - 6244),
      (7299, 7300, 1, - 6242), (7301, 7301, 1, - 6243), (7302, 7302, 1, - 6236), (7303, 7303, 1, - 6181),
      (7304, 7304, 1, 35266), (7545, 7545, 1, 35332), (7549, 7549, 1, 3814), (7566, 7566, 1, 35384),
      (7681, 7829, 2, - 1), (7835, 7835, 1, - 59), (7841, 7935, 2, - 1), (7936, 7943, 1, 8),
      (7952, 7957, 1, 8), (7968, 7975, 1, 8), (7984, 7991, 1, 8), (8000, 8005, 1, 8),
      (8017, 8023, 2, 8), (8032, 8039, 1, 8), (8048, 8049, 1, 74), (8050, 8053, 1, 86),
      (8054, 8055, 1, 100), (8056, 8057, 1, 128), (8058, 8059, 1, 112), (8060, 8061, 1, 126),
      (8064, 8071, 1, 8), (8080, 8087, 1, 8), (8096, 8103, 1, 8), (8112, 8113, 1, 8),
      (8115, 8115, 1, 9), (8126, 8126, 1, - 7205), (8131, 8131, 1, 9), (8144, 8145, 1, 8),
      (8160, 8161, 1, 8), (8165, 8165, 1, 7), (8179, 8179, 1, 9), (8526, 8526, 1, - 28),
      (8560, 8575, 1, - 16), (8580, 8580, 1, - 1), (9424, 9449, 1, - 26), (11312, 11359, 1, - 48),
      (11361, 11361, 1, - 1), (11365, 11365, 1, - 10795), (11366, 11366, 1, - 10792), (11368, 11372, 2, - 1),
      (11379, 11379, 1, - 1), (11382, 11382, 1, - 1), (11393, 11491, 2, - 1), (11500, 11502, 2, - 1),
      (11507, 11507, 1, - 1), (11520, 11557, 1, - 7264), (11559, 11559, 1, - 7264), (11565, 11565, 1, - 7264),
      (42561, 42605, 2, - 1), (42625, 42651, 2, - 1), (42787, 42799, 2, - 1), (42803, 42863, 2, - 1),
      (42874, 42876, 2, - 1), (42879, 42887, 2, - 1), (42892, 42892, 1, - 1), (42897, 42899, 2, - 1),
      (42900, 42900, 1, 48), (42903, 42921, 2, - 1), (42933, 42947, 2, - 1), (42952, 42954, 2, - 1),
      (42961, 42961, 1, - 1), (42967, 42969, 2, - 1), (42998, 42998, 1, - 1), (43859, 43859, 1, - 928),
      (43888, 43967, 1, - 38864), (65345, 65370, 1, - 32), (66600, 66639, 1, - 40), (66776, 66811, 1, - 40),
      (66967, 66977, 1, - 39), (66979, 66993, 1, - 39), (66995, 67001, 1, - 39), (67003, 67004, 1, - 39),
      (68800, 68850, 1, - 64), (71872, 71903, 1, - 32), (93792, 93823, 1, - 32), (125218, 125251, 1, - 34)]"

definition title_special :: "(int \<times> pystr) list" where
  "title_special =
     [(223, [83, 115]), (329, [700, 78]), (496, [74, 780]),
      (912, [921, 776, 769]), (944, [933, 776, 769]), (1415, [1333, 1410]),
      (7830, [72, 817]), (7831, [84, 776]), (7832, [87, 778]),
      (7833, [89, 778]), (7834, [65, 702]), (8016, [933, 787]),
      (8018, [933, 787, 768]), (8020, [933, 787, 769]), (8022, [933, 787, 834]),
      (8114, [8122, 837]), (8116, [902, 837]), (8118, [913, 834]),
      (8119, [913, 834, 837]), (8130, [8138, 837]), (8132, [905, 837]),
      (8134, [919, 834]), (8135, [919, 834, 837]), (8146, [921, 776, 768]),
      (8147, [921, 776, 769]), (8150, [921, 834]), (8151, [921, 776, 834]),
      (8162, [933, 776, 768]), (8163, [933, 776, 769]), (8164, [929, 787]),
      (8166, [933, 834]), (8167, [933, 776, 834]), (8178, [8186, 837]),
      (8180, [911, 837]), (8182, [937, 834]), (8183, [937, 834, 837]),
      (64256, [70, 102]), (64257, [70, 105]), (64258, [70, 108]),
      (64259, [70, 102, 105]), (64260, [70, 102, 108]), (64261, [83, 116]),
      (64262, [83, 116]), (64275, [1348, 1398]), (64276, [1348, 1381]),
      (64277, [1348, 1387]), (64278, [1358, 1398]), (64279, [1348, 1389])]"

definition to_title_full :: "int \<Rightarrow> pystr" where
  "to_title_full c =
     (case special_case title_special c of
        Some cs \<Rightarrow> cs
      | None \<Rightarrow> (case case_delta title_table c of None \<Rightarrow> [c] | Some d \<Rightarrow> [c + d]))"

fun title_from :: "bool \<Rightarrow> pystr \<Rightarrow> pystr \<Rightarrow> pystr" where
  "title_from previous_is_cased before [] = []"
| "title_from previous_is_cased before (c # after) =
     (if previous_is_cased then lower_ucs4 before c after else to_title_full c) @
     title_from (is_cased c) (c # before) after"

definition str_title :: "pystr \<Rightarrow> pystr" where
  "str_title s = title_from False [] s"

subsection \<open>Splitting, joining, slicing\<close>

text \<open>
  The whitespace of \<open>str.strip()\<close> and \<open>str.split()\<close>: the code points for which
  \<open>str.isspace\<close> holds.
\<close>

definition isspace :: "int \<Rightarrow> bool" where
  "isspace c =
     ((9 \<le> c \<and> c \<le> 13) \<or> (28 \<le> c \<and> c \<le> 32) \<or> c = 133 \<or> c = 160 \<or> c = 5760 \<or>
      (8192 \<le> c \<and> c \<le> 8202) \<or> c = 8232 \<or> c = 8233 \<or> c = 8239 \<or> c = 8287 \<or>
      c = 12288)"

definition strip :: "pystr \<Rightarrow> pystr" where
  "strip s = rev (dropWhile isspace (rev (dropWhile isspace s)))"

text \<open>
  \<open>s.split(sep)\<close> for a non-empty separator: the pieces between the occurrences of
  \<open>sep\<close>, found from the left and not overlapping; \<open>cur\<close> holds the piece being read,
  reversed. (Python raises ValueError for an empty separator; the source only splits at
  the non-empty literals below.)
\<close>

function split_from :: "pystr \<Rightarrow> pystr \<Rightarrow> pystr \<Rightarrow> pystr list" where
  "split_from sep cur [] = [rev cur]"
| "split_from sep cur (c # cs) =
     (if sep \<noteq> [] \<and> prefix sep (c # cs)
      then rev cur # split_from sep [] (drop (length sep) (c # cs))
      else split_from sep (c # cur) cs)"
  by pat_completeness auto
termination
  by (relation "measure (\<lambda>(sep, cur, s). length s)") (auto simp: neq_Nil_conv)

definition str_split :: "pystr \<Rightarrow> pystr \<Rightarrow> pystr list" where
  "str_split s sep = split_from sep [] s"

text \<open>\<open>s.split()\<close>: the maximal runs of non-whitespace.\<close>

fun split_ws_from :: "pystr \<Rightarrow> pystr \<Rightarrow> pystr list" where
  "split_ws_from cur [] = (if cur = [] then [] else [rev cur])"
| "split_ws_from cur (c # cs) =
     (if isspace c
      then (if cur = [] then split_ws_from [] cs else rev cur # split_ws_from [] cs)
      else split_ws_from (c # cur) cs)"

definition split_ws :: "pystr \<Rightarrow> pystr list" where
  "split_ws s = split_ws_from [] s"

text \<open>\<open>sep.join(xs)\<close>\<close>

fun join :: "pystr \<Rightarrow> pystr list \<Rightarrow> pystr" where
  "join sep [] = []"
| "join sep [x] = x"
| "join sep (x # y # ys) = x @ sep @ join sep (y # ys)"

text \<open>\<open>str(i)\<close> of an integer, as an f-string renders it: decimal digits, with a sign.\<close>

function digits :: "nat \<Rightarrow> pystr" where
  "digits n = (if n < 10 then [48 + int n] else digits (n div 10) @ [48 + int (n mod 10)])"
  by pat_completeness auto
termination
  by (relation "measure id") auto

definition str_int :: "int \<Rightarrow> pystr" where
  "str_int i = (if i < 0 then 45 # digits (nat (- i)) else digits (nat i))"

text \<open>
  \<open>xs[:n]\<close>: the first \<open>n\<close> elements; a negative \<open>n\<close> counts from the end, so the slice
  then drops the last \<open>-n\<close> elements.
\<close>

definition slice_to :: "int \<Rightarrow> 'a list \<Rightarrow> 'a list" where
  "slice_to n xs = (if n < 0 then take (length xs - nat (- n)) xs else take (nat n) xs)"

text \<open>
  Errors of the interpreter that the code could raise: indexing a list out of range,
  and a \<open>deque\<close> built with a negative \<open>maxlen\<close>.
\<close>

datatype error = IndexError | ValueError

definition index1 :: "'a list \<Rightarrow> error + 'a" where
  "index1 xs = (case xs of _ # x # _ \<Rightarrow> Inr x | _ \<Rightarrow> Inl IndexError)"

section \<open>The analysis result and the memory entry\<close>

text \<open>
  The result bundle is a dictionary; the memory reads its keys \<open>'analysis'\<close>
  (\<open>.get('analysis', '')\<close>) and \<open>'plots'\<close> (\<open>.get('plots', {}).keys()\<close>). \<open>None\<close> is an
  absent key; of the plots only the names are read, in the dictionary's order.
\<close>

record analysis_result =
  analysis :: "pystr option"
  plots :: "pystr list option"

definition get_analysis :: "analysis_result \<Rightarrow> pystr" where
  "get_analysis r = (case analysis r of None \<Rightarrow> [] | Some t \<Rightarrow> t)"

definition get_plots :: "analysis_result \<Rightarrow> pystr list" where
  "get_plots r = (case plots r of None \<Rightarrow> [] | Some ks \<Rightarrow> ks)"

text \<open>
  A dictionary keeps its keys in insertion order, and the reports iterate in that order:
  a dictionary is an association list, \<open>d[k] = v\<close> is \<open>AList.update k v d\<close> (in place for
  a known key, at the end for a new one) and a lookup is \<open>map_of d k\<close>.
\<close>

record AnalysisMemory =
  timestamp :: pystr
  question :: pystr
  analysis_type :: pystr
  key_findings :: "pystr list"
  visualizations :: "pystr list"
  data_patterns :: "(pystr \<times> bool) list"
  recommendations :: "pystr list"

section \<open>The extractors\<close>

subsection \<open>\<open>_extract_key_findings\<close>\<close>

definition bullet :: pystr where
  "bullet = [8226]"

definition finding_keywords :: "pystr list" where
  "finding_keywords =
     [ascii ''encontrado'', ascii ''identificado'', ascii ''detectado'', ascii ''observado'']"

fun findings_loop :: "pystr list \<Rightarrow> pystr list \<Rightarrow> pystr list" where
  "findings_loop findings [] = findings"
| "findings_loop findings (line # lines) =
     (let stripped = strip line in
      if startswith stripped (ascii ''-'') \<or> startswith stripped bullet
      then findings_loop (findings @ [stripped]) lines
      else if any_in finding_keywords (str_lower line)
      then findings_loop (findings @ [stripped]) lines
      else findings_loop findings lines)"

definition extract_key_findings :: "analysis_result \<Rightarrow> pystr list" where
  "extract_key_findings r =
     take 10 (findings_loop [] (str_split (get_analysis r) [10]))"

subsection \<open>\<open>_extract_patterns\<close>\<close>

definition kw_correlacao :: pystr where
  "kw_correlacao = ascii ''correla'' @ [231, 227] @ ascii ''o''"

definition kw_atipico :: pystr where
  "kw_atipico = ascii ''at'' @ [237] @ ascii ''pico''"

definition kw_assimetrica :: pystr where
  "kw_assimetrica = ascii ''assim'' @ [233] @ ascii ''trica''"

definition kw_tendencia :: pystr where
  "kw_tendencia = ascii ''tend'' @ [234] @ ascii ''ncia''"

definition kw_padrao_temporal :: pystr where
  "kw_padrao_temporal = ascii ''padr'' @ [227] @ ascii ''o temporal''"

definition has_correlations :: pystr where
  "has_correlations = ascii ''has_correlations''"

definition strong_correlations :: pystr where
  "strong_correlations = ascii ''strong_correlations''"

definition has_outliers :: pystr where
  "has_outliers = ascii ''has_outliers''"

definition many_outliers :: pystr where
  "many_outliers = ascii ''many_outliers''"

definition asymmetric_distributions :: pystr where
  "asymmetric_distributions = ascii ''asymmetric_distributions''"

definition has_clusters :: pystr where
  "has_clusters = ascii ''has_clusters''"

definition has_temporal_patterns :: pystr where
  "has_temporal_patterns = ascii ''has_temporal_patterns''"

definition many_outlier_words :: "pystr list" where
  "many_outlier_words =
     [ascii ''alta porcentagem'', ascii ''high percentage'', ascii ''muitos outliers'']"

text \<open>
  The five blocks of the source in their order; each \<open>patterns[k] = True\<close> is an update
  of the dictionary built so far.
\<close>

definition correlation_block :: "pystr \<Rightarrow> (pystr \<times> bool) list \<Rightarrow> (pystr \<times> bool) list" where
  "correlation_block text patterns =
     (if str_contains kw_correlacao text \<or> str_contains (ascii ''correlation'') text
      then (let patterns1 = AList.update has_correlations True patterns in
            if str_contains (ascii ''forte'') text \<or> str_contains (ascii ''strong'') text
            then AList.update strong_correlations True patterns1
            else patterns1)
      else patterns)"

definition outlier_block :: "pystr \<Rightarrow> (pystr \<times> bool) list \<Rightarrow> (pystr \<times> bool) list" where
  "outlier_block text patterns =
     (if str_contains (ascii ''outlier'') text \<or> str_contains kw_atipico text
      then (let patterns1 = AList.update has_outliers True patterns in
            if any_in many_outlier_words text
            then AList.update many_outliers True patterns1
            else patterns1)
      else patterns)"

definition distribution_block :: "pystr \<Rightarrow> (pystr \<times> bool) list \<Rightarrow> (pystr \<times> bool) list" where
  "distribution_block text patterns =
     (if str_contains kw_assimetrica text \<or> str_contains (ascii ''asymmetric'') text \<or>
         str_contains (ascii ''skew'') text
      then AList.update asymmetric_distributions True patterns
      else patterns)"

definition clustering_block :: "pystr \<Rightarrow> (pystr \<times> bool) list \<Rightarrow> (pystr \<times> bool) list" where
  "clustering_block text patterns =
     (if str_contains (ascii ''cluster'') text \<or> str_contains (ascii ''agrupamento'') text
      then AList.update has_clusters True patterns
      else patterns)"

definition temporal_block :: "pystr \<Rightarrow> (pystr \<times> bool) list \<Rightarrow> (pystr \<times> bool) list" where
  "temporal_block text patterns =
     (if str_contains kw_tendencia text \<or> str_contains (ascii ''trend'') text \<or>
         str_contains kw_padrao_temporal text
      then AList.update has_temporal_patterns True patterns
      else patterns)"

definition extract_patterns :: "analysis_result \<Rightarrow> (pystr \<times> bool) list" where
  "extract_patterns r =
     (let analysis_text = str_lower (get_analysis r) in
      temporal_block analysis_text
        (clustering_block analysis_text
          (distribution_block analysis_text
            (outlier_block analysis_text
              (correlation_block analysis_text [])))))"

subsection \<open>\<open>_extract_recommendations\<close>\<close>

definition kw_Recomendacoes :: pystr where
  "kw_Recomendacoes = ascii ''Recomenda'' @ [231, 245] @ ascii ''es''"

fun recommendations_loop :: "pystr list \<Rightarrow> pystr list \<Rightarrow> pystr list" where
  "recommendations_loop recs [] = recs"
| "recommendations_loop recs (line # lines) =
     (if startswith (strip line) (ascii ''-'')
      then recommendations_loop (recs @ [strip line]) lines
      else recommendations_loop recs lines)"

text \<open>
  The section after the heading is \<open>analysis_text.split(marker)[1]\<close>: the index raises
  IndexError when the split has a single piece, and the model keeps that branch.
\<close>

definition rec_section :: "pystr \<Rightarrow> error + pystr" where
  "rec_section analysis_text =
     (if str_contains (ascii ''ecomenda'') analysis_text
      then index1 (str_split analysis_text
             (if str_contains kw_Recomendacoes analysis_text then kw_Recomendacoes
              else ascii ''ecomenda''))
      else Inr analysis_text)"

definition extract_recommendations :: "analysis_result \<Rightarrow> error + pystr list" where
  "extract_recommendations r =
     (let analysis_text = get_analysis r in
      if str_contains (ascii ''recomenda'') (str_lower analysis_text) \<or>
         str_contains (ascii ''consider'') (str_lower analysis_text)
      then (case rec_section analysis_text of
              Inl e \<Rightarrow> Inl e
            | Inr sec \<Rightarrow> Inr (take 5 (recommendations_loop [] (str_split sec [10]))))
      else Inr (take 5 []))"

section \<open>The session memory\<close>

text \<open>
  The per-type bucket of \<open>data_insights\<close> and the per-pattern entry of
  \<open>global_patterns\<close> (both dictionaries with fixed keys in the source).
\<close>

record insight =
  i_count :: int
  i_patterns :: "(pystr \<times> bool) list"
  i_last_analysis :: "pystr option"
  i_key_findings :: "pystr list"

record pattern_stat =
  p_count :: int
  p_analyses :: "pystr list"

record EnhancedSessionMemory =
  max_interactions :: int
  analysis_history :: "AnalysisMemory list"
  data_insights :: "(pystr \<times> insight) list"
  conversation_summary :: pystr
  global_patterns :: "(pystr \<times> pattern_stat) list"

text \<open>
  \<open>__init__\<close>: \<open>deque(maxlen=max_interactions)\<close> raises ValueError for a negative
  bound. (The default bound is 100.)
\<close>

definition empty_session :: "int \<Rightarrow> EnhancedSessionMemory" where
  "empty_session m =
     \<lparr>max_interactions = m, analysis_history = [], data_insights = [],
      conversation_summary = [], global_patterns = []\<rparr>"

definition init :: "int \<Rightarrow> error + EnhancedSessionMemory" where
  "init m = (if m < 0 then Inl ValueError else Inr (empty_session m))"

text \<open>
  \<open>deque.append\<close> on a bounded deque: the element goes to the right end, and when the
  deque is then longer than \<open>maxlen\<close> its leftmost element is dropped.
\<close>

definition deque_append :: "nat \<Rightarrow> 'a list \<Rightarrow> 'a \<Rightarrow> 'a list" where
  "deque_append maxlen xs x =
     (let ys = xs @ [x] in if length ys > maxlen then tl ys else ys)"

subsection \<open>\<open>_update_insights\<close>\<close>

definition new_insight :: insight where
  "new_insight = \<lparr>i_count = 0, i_patterns = [], i_last_analysis = None, i_key_findings = []\<rparr>"

definition update_insights ::
  "EnhancedSessionMemory \<Rightarrow> AnalysisMemory \<Rightarrow> EnhancedSessionMemory" where
  "update_insights s memory_entry =
     (let t = analysis_type memory_entry;
          b = (case map_of (data_insights s) t of None \<Rightarrow> new_insight | Some b \<Rightarrow> b);
          b' = \<lparr>i_count = i_count b + 1,
                i_patterns = foldl (\<lambda>ps (pattern, v). AList.update pattern v ps)
                               (i_patterns b) (data_patterns memory_entry),
                i_last_analysis = Some (timestamp memory_entry),
                i_key_findings = i_key_findings b @ take 3 (key_findings memory_entry)\<rparr>
      in s\<lparr>data_insights := AList.update t b' (data_insights s)\<rparr>)"

subsection \<open>\<open>_update_global_patterns\<close>\<close>

definition new_pattern_stat :: pattern_stat where
  "new_pattern_stat = \<lparr>p_count = 0, p_analyses = []\<rparr>"

definition count_pattern ::
  "pystr \<Rightarrow> (pystr \<times> pattern_stat) list \<Rightarrow> pystr \<Rightarrow> (pystr \<times> pattern_stat) list" where
  "count_pattern t gp pattern =
     (let d = (case map_of gp pattern of None \<Rightarrow> new_pattern_stat | Some d \<Rightarrow> d)
      in AList.update pattern \<lparr>p_count = p_count d + 1, p_analyses = p_analyses d @ [t]\<rparr> gp)"

definition update_global_patterns ::
  "EnhancedSessionMemory \<Rightarrow> AnalysisMemory \<Rightarrow> EnhancedSessionMemory" where
  "update_global_patterns s memory_entry =
     s\<lparr>global_patterns :=
         foldl (count_pattern (analysis_type memory_entry)) (global_patterns s)
           (map fst (data_patterns memory_entry))\<rparr>"

subsection \<open>\<open>add_analysis\<close> and \<open>clear\<close>\<close>

text \<open>
  The entry is built from the question, the result bundle, the type tag and the clock
  (\<open>datetime.now().isoformat()\<close>, an input of the model).
\<close>

definition memory_entry_of ::
  "pystr \<Rightarrow> analysis_result \<Rightarrow> pystr \<Rightarrow> pystr \<Rightarrow> error + AnalysisMemory" where
  "memory_entry_of q r t now =
     (case extract_recommendations r of
        Inl e \<Rightarrow> Inl e
      | Inr recs \<Rightarrow>
          Inr \<lparr>timestamp = now, question = q, analysis_type = t,
               key_findings = extract_key_findings r, visualizations = get_plots r,
               data_patterns = extract_patterns r, recommendations = recs\<rparr>)"

text \<open>
  What \<open>add_analysis\<close> does with the entry it has built: the append to the history,
  \<open>_update_insights\<close> and \<open>_update_global_patterns\<close>.
\<close>

definition push :: "EnhancedSessionMemory \<Rightarrow> AnalysisMemory \<Rightarrow> EnhancedSessionMemory" where
  "push s e =
     update_global_patterns
       (update_insights
         (s\<lparr>analysis_history := deque_append (nat (max_interactions s)) (analysis_history s) e\<rparr>)
         e)
       e"

definition add_analysis ::
  "EnhancedSessionMemory \<Rightarrow> pystr \<Rightarrow> analysis_result \<Rightarrow> pystr \<Rightarrow> pystr \<Rightarrow>
     error + EnhancedSessionMemory" where
  "add_analysis s q r t now =
     (case memory_entry_of q r t now of
        Inl e \<Rightarrow> Inl e
      | Inr memory_entry \<Rightarrow> Inr (push s memory_entry))"

definition clear :: "EnhancedSessionMemory \<Rightarrow> EnhancedSessionMemory" where
  "clear s = s\<lparr>analysis_history := [], data_insights := [], conversation_summary := [],
                global_patterns := []\<rparr>"

text \<open>The calls a client makes on a session, and a run of them from a state.\<close>

datatype call = AddAnalysis pystr analysis_result pystr pystr | Clear

fun step :: "EnhancedSessionMemory \<Rightarrow> call \<Rightarrow> error + EnhancedSessionMemory" where
  "step s (AddAnalysis q r t now) = add_analysis s q r t now"
| "step s Clear = Inr (clear s)"

fun run :: "EnhancedSessionMemory \<Rightarrow> call list \<Rightarrow> error + EnhancedSessionMemory" where
  "run s [] = Inr s"
| "run s (c # cs) = (case step s c of Inl e \<Rightarrow> Inl e | Inr s' \<Rightarrow> run s' cs)"

text \<open>A fresh session of a given bound, then a run of calls.\<close>

definition session_run :: "int \<Rightarrow> call list \<Rightarrow> error + EnhancedSessionMemory" where
  "session_run m cs = (case init m of Inl e \<Rightarrow> Inl e | Inr s \<Rightarrow> run s cs)"

subsection \<open>\<open>get_contextual_memory\<close>\<close>

definition type_keywords :: "(pystr \<times> pystr list) list" where
  "type_keywords =
     [(ascii ''correlation'',
         [ascii ''correla'' @ [231, 227] @ ascii ''o'', ascii ''rela'' @ [231, 227] @ ascii ''o'',
          ascii ''correlation'', ascii ''relaciona'']),
      (ascii ''outlier'',
         [ascii ''outlier'', ascii ''anomalia'', ascii ''at'' @ [237] @ ascii ''pico'']),
      (ascii ''distribution'',
         [ascii ''distribui'' @ [231, 227] @ ascii ''o'', ascii ''histograma'',
          ascii ''distribution'']),
      (ascii ''clustering'', [ascii ''cluster'', ascii ''agrupamento'', ascii ''grupo'']),
      (ascii ''temporal'', [ascii ''tempo'', ascii ''temporal'', ascii ''time'', ascii ''trend'']),
      (ascii ''conclusions'', [ascii ''conclus'', ascii ''aprend'', ascii ''insights''])]"

text \<open>
  The loop over \<open>type_keywords.items()\<close>: 3 at the first family whose keyword is in
  the question and whose tag is the entry's type (\<open>break\<close>), 0 when the loop runs out.
\<close>

fun type_relevance :: "(pystr \<times> pystr list) list \<Rightarrow> pystr \<Rightarrow> pystr \<Rightarrow> int" where
  "type_relevance [] question_lower t = 0"
| "type_relevance ((atype, keywords) # rest) question_lower t =
     (if any_in keywords question_lower \<and> t = atype then 3
      else type_relevance rest question_lower t)"

definition question_similarity :: "pystr \<Rightarrow> AnalysisMemory \<Rightarrow> int" where
  "question_similarity question_lower entry =
     (if any_in (filter (\<lambda>word. length word > 3) (split_ws question_lower))
           (str_lower (question entry))
      then 2 else 0)"

definition relevance_score :: "pystr \<Rightarrow> AnalysisMemory \<Rightarrow> int" where
  "relevance_score question_lower entry =
     question_similarity question_lower entry +
     type_relevance type_keywords question_lower (analysis_type entry)"

text \<open>
  The entries with a positive score, walked newest first, each with its score; then
  \<open>sort(key=score, reverse=True)\<close>, which is stable: entries of equal score keep the
  order of the walk.
\<close>

definition relevant_entries :: "EnhancedSessionMemory \<Rightarrow> pystr \<Rightarrow> (AnalysisMemory \<times> int) list" where
  "relevant_entries s q =
     (let question_lower = str_lower q in
      filter (\<lambda>(entry, score). score > 0)
        (map (\<lambda>entry. (entry, relevance_score question_lower entry))
          (rev (analysis_history s))))"

definition sort_by_score_desc :: "('a \<times> int) list \<Rightarrow> ('a \<times> int) list" where
  "sort_by_score_desc xs = sort_key (\<lambda>x. - snd x) xs"

definition get_contextual_memory ::
  "EnhancedSessionMemory \<Rightarrow> pystr \<Rightarrow> int \<Rightarrow> AnalysisMemory list" where
  "get_contextual_memory s q n =
     map fst (slice_to n (sort_by_score_desc (relevant_entries s q)))"

section \<open>The reports\<close>

text \<open>\<open>s.replace('_', ' ')\<close>\<close>

definition underscores_to_spaces :: "pystr \<Rightarrow> pystr" where
  "underscores_to_spaces s = map (\<lambda>c. if c = 95 then 32 else c) s"

text \<open>
  The counts per analysis type that both reports compute from the history:
  \<open>type_counts[t] = type_counts.get(t, 0) + 1\<close> for each entry, oldest first.
\<close>

definition count_type :: "(pystr \<times> int) list \<Rightarrow> AnalysisMemory \<Rightarrow> (pystr \<times> int) list" where
  "count_type type_counts entry =
     AList.update (analysis_type entry)
       ((case map_of type_counts (analysis_type entry) of None \<Rightarrow> 0 | Some c \<Rightarrow> c) + 1)
       type_counts"

definition type_counts_of :: "AnalysisMemory list \<Rightarrow> (pystr \<times> int) list" where
  "type_counts_of history = foldl count_type [] history"

subsection \<open>\<open>generate_summary\<close>\<close>

definition no_analysis_summary :: pystr where
  "no_analysis_summary = (ascii ''Nenhuma an'' @ [225] @ ascii ''lise realizada ainda.'')"

definition generate_summary :: "EnhancedSessionMemory \<Rightarrow> pystr" where
  "generate_summary s =
     (if analysis_history s = [] then no_analysis_summary
      else join [10]
        ([(ascii ''## Resumo das An'' @ [225] @ ascii ''lises Realizadas'' @ [10]),
          (ascii ''Total de an'' @ [225] @ ascii ''lises: '') @ str_int (int (length (analysis_history s))) @ [10],
          ([10] @ ascii ''### Tipos de An'' @ [225] @ ascii ''lises:'')] @
         map (\<lambda>(atype, count).
                ascii ''- '' @ atype @ ascii '': '' @ str_int count @ (ascii '' an'' @ [225] @ ascii ''lises''))
           (type_counts_of (analysis_history s)) @
         (if global_patterns s \<noteq> []
          then ([10] @ ascii ''### Padr'' @ [245] @ ascii ''es Identificados:'') #
               map (\<lambda>(pattern, d).
                      ascii ''- '' @ pattern @ ascii '': detectado em '' @ str_int (p_count d) @
                      (ascii '' an'' @ [225] @ ascii ''lises''))
                 (global_patterns s)
          else [])))"

subsection \<open>\<open>generate_comprehensive_conclusions\<close>\<close>

definition no_analysis_conclusions :: pystr where
  "no_analysis_conclusions =
     (ascii ''Nenhuma an'' @ [225] @ ascii ''lise foi realizada ainda. Por favor, fa'' @ [231] @ ascii ''a algumas an'' @ [225] @ ascii ''lises primeiro.'')"

definition header1 :: pystr where
  "header1 = (ascii ''## 1. Resumo das An'' @ [225] @ ascii ''lises Realizadas'')"

definition header2 :: pystr where
  "header2 = (ascii ''## 2. Principais Padr'' @ [245] @ ascii ''es Identificados'')"

definition header3 :: pystr where
  "header3 = (ascii ''## 3. Principais Descobertas por Tipo de An'' @ [225] @ ascii ''lise'')"

definition header4 :: pystr where
  "header4 = ascii ''## 4. Insights sobre Qualidade dos Dados''"

definition header5 :: pystr where
  "header5 = (ascii ''## 5. Relacionamentos entre Vari'' @ [225] @ ascii ''veis'')"

definition header6 :: pystr where
  "header6 = (ascii ''## 6. Segmenta'' @ [231, 227] @ ascii ''o e Agrupamentos'')"

definition header7 :: pystr where
  "header7 = (ascii ''## 7. Padr'' @ [245] @ ascii ''es Temporais'')"

definition header8 :: pystr where
  "header8 = (ascii ''## 8. Recomenda'' @ [231, 245] @ ascii ''es Consolidadas'')"

definition header9 :: pystr where
  "header9 = (ascii ''## 9. Pr'' @ [243] @ ascii ''ximos Passos Sugeridos'')"

text \<open>
  \<open>self.global_patterns.get(k)\<close> as a condition: the value of a tracked pattern is a
  dictionary with two keys, which is true; an untracked pattern gives \<open>None\<close>.
\<close>

definition tracked :: "EnhancedSessionMemory \<Rightarrow> pystr \<Rightarrow> bool" where
  "tracked s pattern = (map_of (global_patterns s) pattern \<noteq> None)"

text \<open>
  The order in which a \<open>set\<close> is iterated is not fixed by Python. It is the parameter
  \<open>set_list\<close> of the report: \<open>set_list xs\<close> stands for \<open>list(set(xs))\<close>, an enumeration
  of the distinct elements of \<open>xs\<close>. The elements in the order of their first occurrence,
  \<open>remdups_first\<close>, is one such enumeration.
\<close>

definition remdups_first :: "pystr list \<Rightarrow> pystr list" where
  "remdups_first xs = rev (remdups (rev xs))"

definition section1 :: "EnhancedSessionMemory \<Rightarrow> pystr list" where
  "section1 s =
     header1 #
     map (\<lambda>(atype, count). ascii ''- **'' @ atype @ ascii ''**: '' @ str_int count @ (ascii '' an'' @ [225] @ ascii ''lise(s)''))
       (type_counts_of (analysis_history s)) @
     [[]]"

text \<open>The line of section 2 when no pattern is tracked.\<close>

definition no_patterns_line :: pystr where
  "no_patterns_line = ascii ''- Nenhum padr'' @ [227] @ ascii ''o global identificado ainda''"

definition section2 :: "(pystr list \<Rightarrow> pystr list) \<Rightarrow> EnhancedSessionMemory \<Rightarrow> pystr list" where
  "section2 set_list s =
     header2 #
     (if global_patterns s \<noteq> []
      then concat (map (\<lambda>(pattern, d).
             [ascii ''- **'' @ str_title (underscores_to_spaces pattern) @
                ascii ''**: Identificado em '' @ str_int (p_count d) @ (ascii '' an'' @ [225] @ ascii ''lise(s)''),
              ascii ''  - Detectado em: '' @ join (ascii '', '') (set_list (p_analyses d))])
             (global_patterns s))
      else [no_patterns_line]) @
     [[]]"

text \<open>The lines of section 3 for one analysis type: none when it has no findings.\<close>

definition findings_lines :: "(pystr list \<Rightarrow> pystr list) \<Rightarrow> pystr \<times> insight \<Rightarrow> pystr list" where
  "findings_lines set_list item =
     (case item of (atype, insights) \<Rightarrow>
        if i_key_findings insights \<noteq> []
        then (([10] @ ascii ''### '') @ str_title atype @ ascii '':'') #
             map (\<lambda>finding. ascii ''  '' @ finding) (take 5 (set_list (i_key_findings insights)))
        else [])"

definition section3 :: "(pystr list \<Rightarrow> pystr list) \<Rightarrow> EnhancedSessionMemory \<Rightarrow> pystr list" where
  "section3 set_list s =
     header3 # concat (map (findings_lines set_list) (data_insights s)) @ [[]]"

text \<open>The line of section 4 when no quality pattern is tracked.\<close>

definition good_quality_line :: pystr where
  "good_quality_line = ascii ''- Dados aparentam boa qualidade geral''"

definition section4 :: "EnhancedSessionMemory \<Rightarrow> pystr list" where
  "section4 s =
     header4 #
     (let quality_issues =
        (if tracked s has_outliers
         then [ascii ''- Outliers detectados: Podem indicar problemas de qualidade ou valores genuinamente extremos'']
         else []) @
        (if tracked s many_outliers
         then [(ascii ''- Alta concentra'' @ [231, 227] @ ascii ''o de outliers: Requer investiga'' @ [231, 227] @ ascii ''o aprofundada'')]
         else []) @
        (if tracked s asymmetric_distributions
         then [(ascii ''- Distribui'' @ [231, 245] @ ascii ''es assim'' @ [233] @ ascii ''tricas: Considere transforma'' @ [231, 245] @ ascii ''es para normaliza'' @ [231, 227] @ ascii ''o'')]
         else [])
      in if quality_issues \<noteq> [] then quality_issues
         else [good_quality_line]) @
     [[]]"

text \<open>The line of section 5 when no correlation is tracked.\<close>

definition independent_line :: pystr where
  "independent_line =
     ascii ''- Vari'' @ [225] @ ascii ''veis aparentam ser relativamente independentes''"

definition section5 :: "EnhancedSessionMemory \<Rightarrow> pystr list" where
  "section5 s =
     header5 #
     (if tracked s has_correlations
      then (ascii ''- Correla'' @ [231, 245] @ ascii ''es significativas foram identificadas entre vari'' @ [225] @ ascii ''veis'') #
           (if tracked s strong_correlations
            then [(ascii ''- Algumas correla'' @ [231, 245] @ ascii ''es s'' @ [227] @ ascii ''o particularmente fortes''),
                  (ascii ''- **Recomenda'' @ [231, 227] @ ascii ''o**: Considere an'' @ [225] @ ascii ''lise de multicolinearidade para modelagem'')]
            else [])
      else [independent_line]) @
     [[]]"

text \<open>
  Sections 6 and 7 stand under a condition with no \<open>else\<close>: their four lines are appended
  when the pattern is tracked, and nothing is appended otherwise.
\<close>

definition section6_lines :: "pystr list" where
  "section6_lines =
     [header6,
      ascii ''- Clusters distintos foram identificados nos dados'',
      (ascii ''- **Oportunidade**: Use segmenta'' @ [231, 227] @ ascii ''o para an'' @ [225] @ ascii ''lises direcionadas''),
      []]"

definition section6 :: "EnhancedSessionMemory \<Rightarrow> pystr list" where
  "section6 s = (if tracked s has_clusters then section6_lines else [])"

definition section7_lines :: "pystr list" where
  "section7_lines =
     [header7,
      (ascii ''- Tend'' @ [234] @ ascii ''ncias temporais foram identificadas''),
      (ascii ''- **Recomenda'' @ [231, 227] @ ascii ''o**: Considere an'' @ [225] @ ascii ''lise de s'' @ [233] @ ascii ''ries temporais''),
      []]"

definition section7 :: "EnhancedSessionMemory \<Rightarrow> pystr list" where
  "section7 s = (if tracked s has_temporal_patterns then section7_lines else [])"

text \<open>The line of section 8 when no entry of the history has a recommendation.\<close>

definition keep_exploring_line :: pystr where
  "keep_exploring_line =
     ascii ''- Continue explorando os dados com an'' @ [225] @ ascii ''lises mais espec'' @ [237] @ ascii ''ficas''"

definition section8 :: "(pystr list \<Rightarrow> pystr list) \<Rightarrow> EnhancedSessionMemory \<Rightarrow> pystr list" where
  "section8 set_list s =
     header8 #
     (let all_recommendations = concat (map recommendations (analysis_history s));
          unique_recommendations = take 8 (set_list all_recommendations)
      in if unique_recommendations \<noteq> [] then unique_recommendations
         else [keep_exploring_line]) @
     [[]]"

definition all_types :: "pystr list" where
  "all_types =
     [ascii ''correlation'', ascii ''outlier'', ascii ''distribution'', ascii ''clustering'', ascii ''temporal'',
      ascii ''summary'']"

definition type_descriptions :: "(pystr \<times> pystr) list" where
  "type_descriptions =
     [(ascii ''correlation'', (ascii ''An'' @ [225] @ ascii ''lise de correla'' @ [231, 245] @ ascii ''es para entender relacionamentos'')),
      (ascii ''outlier'', (ascii ''Detec'' @ [231, 227] @ ascii ''o de outliers para identificar anomalias'')),
      (ascii ''distribution'', (ascii ''An'' @ [225] @ ascii ''lise de distribui'' @ [231, 245] @ ascii ''es para entender padr'' @ [245] @ ascii ''es'')),
      (ascii ''clustering'', ascii ''Clustering para identificar segmentos''),
      (ascii ''temporal'', (ascii ''An'' @ [225] @ ascii ''lise temporal para identificar tend'' @ [234] @ ascii ''ncias'')),
      (ascii ''summary'', ascii ''Resumo geral dos dados'')]"

text \<open>The four lines that close section 9 in every report.\<close>

definition general_actions :: "pystr list" where
  "general_actions =
     [([10] @ ascii ''### A'' @ [231, 245] @ ascii ''es Gerais:''),
      ascii ''- Validar descobertas com stakeholders'',
      (ascii ''- Documentar insights para refer'' @ [234] @ ascii ''ncia futura''),
      (ascii ''- Considerar an'' @ [225] @ ascii ''lises preditivas se apropriado'')]"

text \<open>The block of section 9 that names the analysis types not yet performed.\<close>

definition recommended_analyses :: "(pystr list \<Rightarrow> pystr list) \<Rightarrow> EnhancedSessionMemory \<Rightarrow> pystr list" where
  "recommended_analyses set_list s =
     (let performed_types = map fst (type_counts_of (analysis_history s));
          missing_types = set_list (filter (\<lambda>t. t \<notin> set performed_types) all_types)
      in if missing_types \<noteq> []
         then (ascii ''### An'' @ [225] @ ascii ''lises Recomendadas:'') #
              concat (map (\<lambda>mtype. case map_of type_descriptions mtype of
                                      Some d \<Rightarrow> [ascii ''- '' @ d]
                                    | None \<Rightarrow> [])
                        missing_types)
         else [])"

definition section9 :: "(pystr list \<Rightarrow> pystr list) \<Rightarrow> EnhancedSessionMemory \<Rightarrow> pystr list" where
  "section9 set_list s = header9 # recommended_analyses set_list s @ general_actions"

text \<open>The two lines above section 1: the title and the number of analyses.\<close>

definition report_head :: "EnhancedSessionMemory \<Rightarrow> pystr list" where
  "report_head s =
     [(ascii ''# Conclus'' @ [245] @ ascii ''es Consolidadas da An'' @ [225] @ ascii ''lise Explorat'' @ [243] @ ascii ''ria de Dados'' @ [10]),
      ascii ''*Baseado em '' @ str_int (int (length (analysis_history s))) @
        (ascii '' an'' @ [225] @ ascii ''lises realizadas*'' @ [10])]"

text \<open>The list \<open>conclusions\<close> that the function fills, and its result.\<close>

definition conclusions :: "(pystr list \<Rightarrow> pystr list) \<Rightarrow> EnhancedSessionMemory \<Rightarrow> pystr list" where
  "conclusions set_list s =
     report_head s @
     section1 s @ section2 set_list s @ section3 set_list s @ section4 s @ section5 s @
     section6 s @ section7 s @ section8 set_list s @ section9 set_list s"

definition generate_comprehensive_conclusions ::
  "(pystr list \<Rightarrow> pystr list) \<Rightarrow> EnhancedSessionMemory \<Rightarrow> pystr" where
  "generate_comprehensive_conclusions set_list s =
     (if analysis_history s = [] then no_analysis_conclusions
      else join [10] (conclusions set_list s))"

section \<open>The pattern vocabulary\<close>

text \<open>
  The keyword families of the pattern extractor as its description gives them: each
  pattern name of the fixed vocabulary with its trigger condition on the lower-cased
  text. \<open>strong_correlations\<close> and \<open>many_outliers\<close> need the trigger of their family
  and their own.
\<close>

definition correlation_trigger :: "pystr \<Rightarrow> bool" where
  "correlation_trigger text =
     (str_contains kw_correlacao text \<or> str_contains (ascii ''correlation'') text)"

definition strong_trigger :: "pystr \<Rightarrow> bool" where
  "strong_trigger text =
     (str_contains (ascii ''forte'') text \<or> str_contains (ascii ''strong'') text)"

definition outlier_trigger :: "pystr \<Rightarrow> bool" where
  "outlier_trigger text =
     (str_contains (ascii ''outlier'') text \<or> str_contains kw_atipico text)"

definition many_trigger :: "pystr \<Rightarrow> bool" where
  "many_trigger text =
     (str_contains (ascii ''alta porcentagem'') text \<or>
      str_contains (ascii ''high percentage'') text \<or>
      str_contains (ascii ''muitos outliers'') text)"

definition asymmetric_trigger :: "pystr \<Rightarrow> bool" where
  "asymmetric_trigger text =
     (str_contains kw_assimetrica text \<or> str_contains (ascii ''asymmetric'') text \<or>
      str_contains (ascii ''skew'') text)"

definition cluster_trigger :: "pystr \<Rightarrow> bool" where
  "cluster_trigger text =
     (str_contains (ascii ''cluster'') text \<or> str_contains (ascii ''agrupamento'') text)"

definition temporal_trigger :: "pystr \<Rightarrow> bool" where
  "temporal_trigger text =
     (str_contains kw_tendencia text \<or> str_contains (ascii ''trend'') text \<or>
      str_contains kw_padrao_temporal text)"

definition pattern_triggers :: "pystr \<Rightarrow> (pystr \<times> bool) list" where
  "pattern_triggers text =
     [(has_correlations, correlation_trigger text),
      (strong_correlations, correlation_trigger text \<and> strong_trigger text),
      (has_outliers, outlier_trigger text),
      (many_outliers, outlier_trigger text \<and> many_trigger text),
      (asymmetric_distributions, asymmetric_trigger text),
      (has_clusters, cluster_trigger text),
      (has_temporal_patterns, temporal_trigger text)]"

definition pattern_vocabulary :: "pystr list" where
  "pattern_vocabulary =
     [has_correlations, strong_correlations, has_outliers, many_outliers,
      asymmetric_distributions, has_clusters, has_temporal_patterns]"

definition satisfied :: "pystr \<Rightarrow> pystr \<Rightarrow> bool" where
  "satisfied text k = ((k, True) \<in> set (pattern_triggers text))"

text \<open>
  The keywords that open a family. (\<open>forte\<close>, \<open>strong\<close> and the words for many outliers
  only count inside a family that is already open.)
\<close>

definition recognized_keywords :: "pystr list" where
  "recognized_keywords =
     [kw_correlacao, ascii ''correlation'', ascii ''outlier'', kw_atipico, kw_assimetrica,
      ascii ''asymmetric'', ascii ''skew'', ascii ''cluster'', ascii ''agrupamento'',
      kw_tendencia, ascii ''trend'', kw_padrao_temporal]"

text \<open>Each of these keywords with the pattern name it triggers.\<close>

definition keyword_keys :: "(pystr \<times> pystr) list" where
  "keyword_keys =
     [(kw_correlacao, has_correlations), (ascii ''correlation'', has_correlations),
      (ascii ''outlier'', has_outliers), (kw_atipico, has_outliers),
      (kw_assimetrica, asymmetric_distributions),
      (ascii ''asymmetric'', asymmetric_distributions),
      (ascii ''skew'', asymmetric_distributions),
      (ascii ''cluster'', has_clusters), (ascii ''agrupamento'', has_clusters),
      (kw_tendencia, has_temporal_patterns), (ascii ''trend'', has_temporal_patterns),
      (kw_padrao_temporal, has_temporal_patterns)]"

section \<open>Notions for the statements\<close>

text \<open>
  Lower case as the Latin-1 range has it, stated apart from the tables: \<open>A\<close>..\<open>Z\<close> and
  U+00C0..U+00DE without the multiplication sign U+00D7 move up by 32.
\<close>

definition latin1_lower :: "int \<Rightarrow> int" where
  "latin1_lower c =
     (if 65 \<le> c \<and> c \<le> 90 then c + 32
      else if 192 \<le> c \<and> c \<le> 222 \<and> c \<noteq> 215 then c + 32
      else c)"

text \<open>
  A word whose code points each lower-case to themselves, wherever it stands (it has no
  capital sigma).
\<close>

definition keeps_case :: "pystr \<Rightarrow> bool" where
  "keeps_case w = (list_all (\<lambda>c. c \<noteq> 931) w \<and> concat (map to_lower_full w) = w)"

text \<open>
  A call of \<open>add_analysis\<close> as its four inputs (question, result bundle, type tag, clock),
  and the entry that the call builds.
\<close>

type_synonym analysis_call = "pystr \<times> analysis_result \<times> pystr \<times> pystr"

definition add_call :: "analysis_call \<Rightarrow> call" where
  "add_call c = (case c of (q, r, t, now) \<Rightarrow> AddAnalysis q r t now)"

definition call_type :: "analysis_call \<Rightarrow> pystr" where
  "call_type c = (case c of (q, r, t, now) \<Rightarrow> t)"

definition builds :: "analysis_call \<Rightarrow> AnalysisMemory \<Rightarrow> bool" where
  "builds c e = (case c of (q, r, t, now) \<Rightarrow> memory_entry_of q r t now = Inr e)"

text \<open>The tracker entry of a pattern seen once, in an analysis of type \<open>t\<close>.\<close>

definition stat_once :: "pystr \<Rightarrow> pattern_stat" where
  "stat_once t = \<lparr>p_count = 1, p_analyses = [t]\<rparr>"

text \<open>The count of a type's bucket in \<open>data_insights\<close>, 0 while there is no bucket.\<close>

definition insight_count :: "EnhancedSessionMemory \<Rightarrow> pystr \<Rightarrow> int" where
  "insight_count s t = (case map_of (data_insights s) t of None \<Rightarrow> 0 | Some b \<Rightarrow> i_count b)"

text \<open>Every tracked pattern has as many analyses as its count says.\<close>

definition counts_match :: "(pystr \<times> pattern_stat) list \<Rightarrow> bool" where
  "counts_match gp =
     (\<forall>k d. map_of gp k = Some d \<longrightarrow> p_count d = int (length (p_analyses d)))"

text \<open>
  Example inputs: the empty text; a text in capitals, with the Kelvin sign U+212A for
  the K of "SKEW", and the capitals of one keyword in it; the phrase of the scenario,
  and three result bundles.
\<close>

definition r_empty :: analysis_result where
  "r_empty = \<lparr>analysis = Some [], plots = None\<rparr>"

definition w_capitals :: pystr where
  "w_capitals = ascii ''CORRELA'' @ [199, 195] @ ascii ''O''"

definition r_capitals :: analysis_result where
  "r_capitals =
     \<lparr>analysis = Some ([83, 8490, 69, 87] @ ascii '' e CORRELA'' @ [199, 195] @ ascii ''O Forte''),
      plots = None\<rparr>"

definition kw_correlacao_forte :: pystr where
  "kw_correlacao_forte = ascii ''correla'' @ [231, 227] @ ascii ''o forte''"

definition r_corr :: analysis_result where
  "r_corr = \<lparr>analysis = Some (ascii ''correla'' @ [231, 227] @ ascii ''o forte''), plots = None\<rparr>"

definition r_corr_outlier :: analysis_result where
  "r_corr_outlier =
     \<lparr>analysis = Some (ascii ''correla'' @ [231, 227] @ ascii ''o forte, um outlier''),
      plots = None\<rparr>"

definition r_corr_kelvin :: analysis_result where
  "r_corr_kelvin =
     \<lparr>analysis = Some (ascii ''correla'' @ [231, 227] @ ascii ''o forte S'' @ [8490] @ ascii ''EW''),
      plots = None\<rparr>"

definition r_none :: analysis_result where
  "r_none = \<lparr>analysis = None, plots = None\<rparr>"

text \<open>
  The ranking of \<open>get_contextual_memory\<close> before it is cut to \<open>n\<close> entries: the entries
  of positive score, newest first, sorted by falling score.
\<close>

definition ranking :: "EnhancedSessionMemory \<Rightarrow> pystr \<Rightarrow> AnalysisMemory list" where
  "ranking s q =
     sort_key (\<lambda>e. - relevance_score (str_lower q) e)
       (filter (\<lambda>e. relevance_score (str_lower q) e > 0) (rev (analysis_history s)))"

text \<open>
  Example sessions: two analyses of the same question, tagged \<open>correlation\<close> and
  \<open>outlier\<close>; one analysis that finds nothing; one analysis that finds clusters and a
  trend.
\<close>

definition q_dados :: pystr where
  "q_dados = ascii ''Existe algum problema nos dados?''"

definition q_corr :: pystr where
  "q_corr = ascii ''Existe correla'' @ [231, 227] @ ascii ''o entre as vari'' @ [225] @ ascii ''veis?''"

definition entry_corr :: AnalysisMemory where
  "entry_corr =
     \<lparr>timestamp = ascii ''t1'', question = q_dados, analysis_type = ascii ''correlation'',
      key_findings = [], visualizations = [], data_patterns = [], recommendations = []\<rparr>"

definition entry_outlier :: AnalysisMemory where
  "entry_outlier = entry_corr\<lparr>analysis_type := ascii ''outlier''\<rparr>"

definition two_analyses :: EnhancedSessionMemory where
  "two_analyses =
     \<lparr>max_interactions = 100,
      analysis_history = [entry_corr, entry_outlier],
      data_insights =
        [(ascii ''correlation'',
            \<lparr>i_count = 1, i_patterns = [], i_last_analysis = Some (ascii ''t1''),
             i_key_findings = []\<rparr>),
         (ascii ''outlier'',
            \<lparr>i_count = 1, i_patterns = [], i_last_analysis = Some (ascii ''t1''),
             i_key_findings = []\<rparr>)],
      conversation_summary = [],
      global_patterns = []\<rparr>"

definition q_grupos :: pystr where
  "q_grupos = ascii ''Existem grupos nos dados?''"

definition r_cluster_trend :: analysis_result where
  "r_cluster_trend =
     \<lparr>analysis = Some (ascii ''Foram encontrados 3 clusters e uma tend'' @ [234] @ ascii ''ncia de alta''),
      plots = None\<rparr>"

definition one_analysis :: EnhancedSessionMemory where
  "one_analysis =
     \<lparr>max_interactions = 100,
      analysis_history =
        [\<lparr>timestamp = ascii ''t1'', question = q_dados, analysis_type = ascii ''general'',
          key_findings = [], visualizations = [], data_patterns = [], recommendations = []\<rparr>],
      data_insights =
        [(ascii ''general'',
            \<lparr>i_count = 1, i_patterns = [], i_last_analysis = Some (ascii ''t1''),
             i_key_findings = []\<rparr>)],
      conversation_summary = [],
      global_patterns = []\<rparr>"

definition clusters_and_trend :: EnhancedSessionMemory where
  "clusters_and_trend =
     \<lparr>max_interactions = 100,
      analysis_history =
        [\<lparr>timestamp = ascii ''t1'', question = q_grupos, analysis_type = ascii ''clustering'',
          key_findings =
            [ascii ''Foram encontrados 3 clusters e uma tend'' @ [234] @ ascii ''ncia de alta''],
          visualizations = [],
          data_patterns = [(has_clusters, True), (has_temporal_patterns, True)],
          recommendations = []\<rparr>],
      data_insights =
        [(ascii ''clustering'',
            \<lparr>i_count = 1,
             i_patterns = [(has_clusters, True), (has_temporal_patterns, True)],
             i_last_analysis = Some (ascii ''t1''),
             i_key_findings =
               [ascii ''Foram encontrados 3 clusters e uma tend'' @ [234] @ ascii ''ncia de alta'']\<rparr>)],
      conversation_summary = [],
      global_patterns =
        [(has_clusters, \<lparr>p_count = 1, p_analyses = [ascii ''clustering'']\<rparr>),
         (has_temporal_patterns, \<lparr>p_count = 1, p_analyses = [ascii ''clustering'']\<rparr>)]\<rparr>"

section \<open>Properties of the string operations\<close>

lemma split_from_not_Nil: "split_from sep cur s \<noteq> []"
  by (induction s arbitrary: cur) auto

text \<open>A separator that occurs in the text splits it into at least two pieces.\<close>

lemma split_from_two:
  "sep \<noteq> [] \<Longrightarrow> sublist sep s \<Longrightarrow> \<exists>a b rest. split_from sep cur s = a # b # rest"
proof (induction s arbitrary: cur)
  case Nil
  then show ?case by simp
next
  case (Cons c cs)
  show ?case
  proof (cases "prefix sep (c # cs)")
    case True
    obtain b rest where "split_from sep [] (drop (length sep) (c # cs)) = b # rest"
      using split_from_not_Nil by (meson neq_Nil_conv)
    with True Cons.prems(1) show ?thesis by simp
  next
    case False
    with Cons.prems have "sublist sep cs"
      by (simp add: sublist_Cons_right)
    from Cons.IH [OF Cons.prems(1) this, of "c # cur"] False show ?thesis by simp
  qed
qed

lemma index1_split:
  assumes "sep \<noteq> []" and "str_contains sep s"
  shows "\<exists>x. index1 (str_split s sep) = Inr x"
proof -
  obtain x y rest where "split_from sep [] s = x # y # rest"
    using assms split_from_two [of sep s "[]"] by (auto simp: str_contains_def)
  then show ?thesis by (simp add: index1_def str_split_def)
qed

text \<open>
  Lower-casing a text maps every word without a capital sigma code point by code point,
  whatever stands around it.
\<close>

lemma lower_from_keeps_front:
  "931 \<notin> set w \<Longrightarrow>
     \<exists>Y. lower_from before (w @ q) = concat (map to_lower_full w) @ Y"
proof (induction w arbitrary: before)
  case Nil
  then show ?case by simp
next
  case (Cons c w)
  then obtain Y where "lower_from (c # before) (w @ q) = concat (map to_lower_full w) @ Y"
    by fastforce
  with Cons.prems show ?case by (simp add: lower_ucs4_def)
qed

lemma lower_from_keeps:
  "931 \<notin> set w \<Longrightarrow>
     \<exists>X Y. lower_from before (p @ w @ q) = X @ concat (map to_lower_full w) @ Y"
proof (induction p arbitrary: before)
  case Nil
  then show ?case using lower_from_keeps_front [of w before q] by (metis append_Nil)
next
  case (Cons c p)
  then obtain X Y where
    "lower_from (c # before) (p @ w @ q) = X @ concat (map to_lower_full w) @ Y"
    by blast
  then have "lower_from before ((c # p) @ w @ q) =
      (lower_ucs4 before c (p @ w @ q) @ X) @ concat (map to_lower_full w) @ Y"
    by simp
  then show ?case by blast
qed

lemma str_contains_lower_spelling:
  assumes "931 \<notin> set w" and "str_contains w t"
  shows "str_contains (concat (map to_lower_full w)) (str_lower t)"
proof -
  from assms(2) obtain p q where "t = p @ w @ q"
    by (auto simp: str_contains_def sublist_def)
  with lower_from_keeps [OF assms(1), of "[]" p q] show ?thesis
    by (auto simp: str_contains_def str_lower_def sublist_def)
qed

lemma str_contains_lower:
  "str_contains k t \<Longrightarrow> keeps_case k \<Longrightarrow> str_contains k (str_lower t)"
  using str_contains_lower_spelling [of k t] by (auto simp: keeps_case_def list_all_iff)

text \<open>On the Latin-1 range the tables give the familiar shift by 32.\<close>

lemma to_lower_full_latin1: "c < 256 \<Longrightarrow> to_lower_full c = [latin1_lower c]"
  by (auto simp: to_lower_full_def lower_special_def lower_table_def latin1_lower_def)

lemma lower_latin1_spelling:
  assumes "list_all (\<lambda>c. c < 256) w" and "str_contains w t"
  shows "str_contains (map latin1_lower w) (str_lower t)"
proof -
  from assms(1) have "concat (map to_lower_full w) = map latin1_lower w"
    by (induction w) (simp_all add: to_lower_full_latin1)
  moreover from assms(1) have "931 \<notin> set w"
    by (auto simp: list_all_iff)
  ultimately show ?thesis
    using str_contains_lower_spelling [of w t] assms(2) by simp
qed

section \<open>The extractors never fail and are bounded\<close>

lemma kw_Recomendacoes_not_Nil: "kw_Recomendacoes \<noteq> []"
  by (simp add: kw_Recomendacoes_def ascii_def)

text \<open>
  The index \<open>[1]\<close> of \<open>_extract_recommendations\<close> is always in range: the text is split at
  a marker only when the marker occurs in it.
\<close>

lemma rec_section_total: "\<exists>sec. rec_section t = Inr sec"
proof (cases "str_contains (ascii ''ecomenda'') t")
  case False
  then show ?thesis by (simp add: rec_section_def)
next
  case ecomenda: True
  show ?thesis
  proof (cases "str_contains kw_Recomendacoes t")
    case True
    from index1_split [OF kw_Recomendacoes_not_Nil True] ecomenda
    show ?thesis by (simp add: rec_section_def True)
  next
    case False
    have "ascii ''ecomenda'' \<noteq> []" by (simp add: ascii_def)
    from index1_split [OF this ecomenda] ecomenda False
    show ?thesis by (simp add: rec_section_def)
  qed
qed

lemma extract_recommendations_total:
  "\<exists>recs. extract_recommendations r = Inr recs \<and> length recs \<le> 5"
proof -
  obtain sec where "rec_section (get_analysis r) = Inr sec"
    using rec_section_total by blast
  then show ?thesis
    by (simp add: extract_recommendations_def Let_def)
qed

text \<open>
  C9: for every input text, the findings extractor returns at most 10 strings, and the
  recommendations extractor returns (it raises no error) at most 5 strings.
\<close>

theorem extractors_bounded:
  "length (extract_key_findings r) \<le> 10 \<and>
   (\<exists>recs. extract_recommendations r = Inr recs \<and> length recs \<le> 5)"
  using extract_recommendations_total [of r] by (simp add: extract_key_findings_def)

section \<open>The reports of an empty session\<close>

text \<open>
  C7: when the history is empty, \<open>generate_summary\<close> returns its fixed message and
  \<open>generate_comprehensive_conclusions\<close> returns its fixed message, whatever else the
  session holds. Both are functions from the session to a string: they return nothing
  else and leave the session as it is.
\<close>

theorem empty_history_reports:
  "analysis_history s = [] \<Longrightarrow>
     generate_summary s = no_analysis_summary \<and>
     generate_comprehensive_conclusions set_list s = no_analysis_conclusions"
  by (simp add: generate_summary_def generate_comprehensive_conclusions_def)

theorem empty_history_reports_witness:
  "analysis_history (empty_session 100) = [] \<and>
   generate_summary (empty_session 100) = no_analysis_summary \<and>
   generate_comprehensive_conclusions remdups_first (empty_session 100) =
     no_analysis_conclusions"
  using empty_history_reports [of "empty_session 100" remdups_first]
  by (simp add: empty_session_def)

section \<open>The pattern extractor\<close>

lemma distinct_pattern_vocabulary: "distinct pattern_vocabulary"
  by (simp add: pattern_vocabulary_def has_correlations_def strong_correlations_def
      has_outliers_def many_outliers_def asymmetric_distributions_def has_clusters_def
      has_temporal_patterns_def ascii_def)

lemmas pattern_names_differ =
  distinct_pattern_vocabulary [unfolded pattern_vocabulary_def, simplified]

lemma satisfied_simps:
  "satisfied text has_correlations = correlation_trigger text"
  "satisfied text strong_correlations = (correlation_trigger text \<and> strong_trigger text)"
  "satisfied text has_outliers = outlier_trigger text"
  "satisfied text many_outliers = (outlier_trigger text \<and> many_trigger text)"
  "satisfied text asymmetric_distributions = asymmetric_trigger text"
  "satisfied text has_clusters = cluster_trigger text"
  "satisfied text has_temporal_patterns = temporal_trigger text"
  using pattern_names_differ by (auto simp: satisfied_def pattern_triggers_def)

lemma many_trigger_any_in: "any_in many_outlier_words text = many_trigger text"
  by (simp add: any_in_def many_outlier_words_def many_trigger_def)

lemma block_simps:
  "correlation_block text ps =
     (if correlation_trigger text
      then (if strong_trigger text
            then AList.update strong_correlations True (AList.update has_correlations True ps)
            else AList.update has_correlations True ps)
      else ps)"
  "outlier_block text ps =
     (if outlier_trigger text
      then (if many_trigger text
            then AList.update many_outliers True (AList.update has_outliers True ps)
            else AList.update has_outliers True ps)
      else ps)"
  "distribution_block text ps =
     (if asymmetric_trigger text then AList.update asymmetric_distributions True ps else ps)"
  "clustering_block text ps =
     (if cluster_trigger text then AList.update has_clusters True ps else ps)"
  "temporal_block text ps =
     (if temporal_trigger text then AList.update has_temporal_patterns True ps else ps)"
  by (simp_all add: correlation_block_def outlier_block_def distribution_block_def
      clustering_block_def temporal_block_def correlation_trigger_def strong_trigger_def
      outlier_trigger_def many_trigger_any_in asymmetric_trigger_def cluster_trigger_def
      temporal_trigger_def Let_def)

lemma extract_patterns_eq:
  "extract_patterns r =
     map (\<lambda>k. (k, True)) (filter (satisfied (str_lower (get_analysis r))) pattern_vocabulary)"
  using pattern_names_differ
  by (simp add: extract_patterns_def block_simps satisfied_simps pattern_vocabulary_def)

lemma no_keyword_no_trigger:
  "\<not> any_in recognized_keywords text \<Longrightarrow> \<not> satisfied text k"
  by (auto simp: any_in_def recognized_keywords_def satisfied_def pattern_triggers_def
      correlation_trigger_def outlier_trigger_def asymmetric_trigger_def cluster_trigger_def
      temporal_trigger_def)

lemma keyword_opens_family:
  "any_in recognized_keywords text \<Longrightarrow> \<exists>k \<in> set pattern_vocabulary. satisfied text k"
  by (auto simp: any_in_def recognized_keywords_def satisfied_simps pattern_vocabulary_def
      correlation_trigger_def outlier_trigger_def asymmetric_trigger_def cluster_trigger_def
      temporal_trigger_def)

lemma keyword_triggers_key:
  "(kw, k) \<in> set keyword_keys \<Longrightarrow> str_contains kw text \<Longrightarrow>
     k \<in> set pattern_vocabulary \<and> satisfied text k"
  by (auto simp: keyword_keys_def satisfied_simps pattern_vocabulary_def
      correlation_trigger_def outlier_trigger_def asymmetric_trigger_def cluster_trigger_def
      temporal_trigger_def)

lemma extract_patterns_empty_iff:
  "extract_patterns r = [] \<longleftrightarrow> \<not> any_in recognized_keywords (str_lower (get_analysis r))"
  unfolding extract_patterns_eq
  using keyword_opens_family [of "str_lower (get_analysis r)"]
    no_keyword_no_trigger [of "str_lower (get_analysis r)"]
  by (auto simp: filter_empty_conv)

text \<open>
  C6: for every input text, the keys of the mapping that \<open>_extract_patterns\<close> returns are
  exactly the names of the fixed vocabulary whose trigger condition holds of the
  lower-cased text, so never a name outside the vocabulary; hence the mapping is empty
  exactly when the lower-cased text contains none of the recognized keywords, as for the
  empty text. The match does not depend on the case of the letters: a text that contains
  a recognized keyword in any Latin-1 spelling, capitals included, has the pattern name of
  that keyword among its keys.
\<close>

theorem extract_patterns_keys:
  "fst ` set (extract_patterns r) =
     {k \<in> set pattern_vocabulary. satisfied (str_lower (get_analysis r)) k} \<and>
   (extract_patterns r = [] \<longleftrightarrow>
      \<not> any_in recognized_keywords (str_lower (get_analysis r))) \<and>
   (get_analysis r = [] \<longrightarrow> extract_patterns r = []) \<and>
   (list_all (\<lambda>c. c < 256) w \<and> (map latin1_lower w, k) \<in> set keyword_keys \<and>
    str_contains w (get_analysis r) \<longrightarrow> k \<in> fst ` set (extract_patterns r))"
proof (intro conjI impI)
  show keys: "fst ` set (extract_patterns r) =
     {k \<in> set pattern_vocabulary. satisfied (str_lower (get_analysis r)) k}"
    unfolding extract_patterns_eq by (auto simp: image_iff)
  assume spelled: "list_all (\<lambda>c. c < 256) w \<and>
    (map latin1_lower w, k) \<in> set keyword_keys \<and> str_contains w (get_analysis r)"
  then have lowered: "str_contains (map latin1_lower w) (str_lower (get_analysis r))"
    by (simp add: lower_latin1_spelling)
  from spelled have "(map latin1_lower w, k) \<in> set keyword_keys"
    by simp
  then have "k \<in> set pattern_vocabulary \<and> satisfied (str_lower (get_analysis r)) k"
    using lowered by (rule keyword_triggers_key)
  then show "k \<in> fst ` set (extract_patterns r)"
    by (simp add: keys)
next
  show "extract_patterns r = [] \<longleftrightarrow>
      \<not> any_in recognized_keywords (str_lower (get_analysis r))"
    by (rule extract_patterns_empty_iff)
next
  assume "get_analysis r = []"
  then have "\<not> any_in recognized_keywords (str_lower (get_analysis r))"
    by (simp add: any_in_def recognized_keywords_def str_lower_def str_contains_def
        kw_correlacao_def kw_atipico_def kw_assimetrica_def kw_tendencia_def
        kw_padrao_temporal_def ascii_def)
  then show "extract_patterns r = []"
    by (simp add: extract_patterns_empty_iff)
qed

text \<open>
  Two inputs: the empty text, and a text in capitals whose "SKEW" is written with the
  Kelvin sign U+212A, which only lower-casing turns into \<open>k\<close>.
\<close>

theorem extract_patterns_keys_witness:
  "get_analysis r_empty = [] \<and>
   \<not> any_in recognized_keywords (str_lower (get_analysis r_empty)) \<and>
   extract_patterns r_empty = [] \<and>
   list_all (\<lambda>c. c < 256) w_capitals \<and>
   (map latin1_lower w_capitals, has_correlations) \<in> set keyword_keys \<and>
   str_contains w_capitals (get_analysis r_capitals) \<and>
   has_correlations \<in> fst ` set (extract_patterns r_capitals) \<and>
   fst ` set (extract_patterns r_capitals) =
     {has_correlations, strong_correlations, asymmetric_distributions}"
proof -
  have empty_text: "get_analysis r_empty = []"
    by code_simp
  have none: "\<not> any_in recognized_keywords (str_lower (get_analysis r_empty))"
    by code_simp
  from extract_patterns_keys [of r_empty] empty_text have e: "extract_patterns r_empty = []"
    by blast
  have latin: "list_all (\<lambda>c. c < 256) w_capitals" by code_simp
  have kw: "(map latin1_lower w_capitals, has_correlations) \<in> set keyword_keys"
    by code_simp
  have inside: "str_contains w_capitals (get_analysis r_capitals)" by code_simp
  from extract_patterns_keys [of r_capitals w_capitals has_correlations] latin kw inside
  have ne: "has_correlations \<in> fst ` set (extract_patterns r_capitals)"
    by blast
  have sat:
    "satisfied (str_lower (get_analysis r_capitals)) has_correlations"
    "satisfied (str_lower (get_analysis r_capitals)) strong_correlations"
    "\<not> satisfied (str_lower (get_analysis r_capitals)) has_outliers"
    "\<not> satisfied (str_lower (get_analysis r_capitals)) many_outliers"
    "satisfied (str_lower (get_analysis r_capitals)) asymmetric_distributions"
    "\<not> satisfied (str_lower (get_analysis r_capitals)) has_clusters"
    "\<not> satisfied (str_lower (get_analysis r_capitals)) has_temporal_patterns"
    by code_simp+
  from extract_patterns_keys [of r_capitals w_capitals has_correlations]
  have "fst ` set (extract_patterns r_capitals) =
      {k \<in> set pattern_vocabulary. satisfied (str_lower (get_analysis r_capitals)) k}"
    by (rule conjunct1)
  also have "\<dots> = {has_correlations, strong_correlations, asymmetric_distributions}"
    using sat by (auto simp: pattern_vocabulary_def)
  finally have keys: "fst ` set (extract_patterns r_capitals) =
      {has_correlations, strong_correlations, asymmetric_distributions}" .
  show ?thesis
    by (intro conjI) (rule empty_text none e latin kw inside ne keys)+
qed

section \<open>Adding an analysis never fails\<close>

lemma memory_entry_of_total:
  "\<exists>e. memory_entry_of q r t now = Inr e \<and> timestamp e = now \<and> question e = q \<and>
       analysis_type e = t \<and> data_patterns e = extract_patterns r \<and>
       key_findings e = extract_key_findings r"
proof -
  obtain recs where "extract_recommendations r = Inr recs"
    using extract_recommendations_total by blast
  then show ?thesis by (simp add: memory_entry_of_def)
qed

lemma builds_total: "\<exists>e. builds c e"
  using memory_entry_of_total by (cases c) (fastforce simp: builds_def)

lemma builds_type: "builds c e \<Longrightarrow> analysis_type e = call_type c"
  using memory_entry_of_total [of "fst c" "fst (snd c)" "fst (snd (snd c))" "snd (snd (snd c))"]
  by (cases c) (auto simp: builds_def call_type_def)

lemma builds_patterns:
  "builds c e \<Longrightarrow> data_patterns e = extract_patterns (fst (snd c))"
  using memory_entry_of_total [of "fst c" "fst (snd c)" "fst (snd (snd c))" "snd (snd (snd c))"]
  by (cases c) (auto simp: builds_def)

lemma builds_question: "builds c e \<Longrightarrow> question e = fst c"
  using memory_entry_of_total [of "fst c" "fst (snd c)" "fst (snd (snd c))" "snd (snd (snd c))"]
  by (cases c) (auto simp: builds_def)

lemma add_analysis_push: "\<exists>e. add_analysis s q r t now = Inr (push s e)"
  using memory_entry_of_total [of q r t now] by (auto simp: add_analysis_def push_def)

lemma step_add_call: "builds c e \<Longrightarrow> step s (add_call c) = Inr (push s e)"
  by (cases c) (simp add: add_call_def builds_def add_analysis_def push_def)

lemma push_fields:
  "max_interactions (push s e) = max_interactions s"
  "analysis_history (push s e) = deque_append (nat (max_interactions s)) (analysis_history s) e"
  "global_patterns (push s e) =
     foldl (count_pattern (analysis_type e)) (global_patterns s) (map fst (data_patterns e))"
  by (simp_all add: push_def update_global_patterns_def update_insights_def Let_def)

lemma run_add_calls:
  "list_all2 builds cs es \<Longrightarrow> run s (map add_call cs) = Inr (foldl push s es)"
proof (induction cs es arbitrary: s rule: list_all2_induct)
  case Nil
  then show ?case by simp
next
  case (Cons c e cs es)
  then show ?case by (simp add: step_add_call)
qed

lemma list_all2_builds: "\<exists>es. list_all2 builds cs es"
proof (induction cs)
  case Nil
  then show ?case by simp
next
  case (Cons c cs)
  then obtain es where "list_all2 builds cs es" by blast
  moreover obtain e where "builds c e" using builds_total by blast
  ultimately have "list_all2 builds (c # cs) (e # es)" by simp
  then show ?case by blast
qed

lemma foldl_push_max: "max_interactions (foldl push s es) = max_interactions s"
  by (induction es arbitrary: s) (simp_all add: push_fields)

section \<open>The rolling history\<close>

lemma tl_drop_snoc: "k \<le> length xs \<Longrightarrow> tl (drop k xs @ [e]) = drop (Suc k) (xs @ [e])"
proof -
  assume "k \<le> length xs"
  then have "drop k xs @ [e] = drop k (xs @ [e])" by simp
  then show ?thesis by (simp only: tl_drop drop_Suc)
qed

lemma deque_append_window:
  "deque_append m (drop (length xs - m) xs) e = drop (length (xs @ [e]) - m) (xs @ [e])"
proof (cases "length xs < m")
  case True
  then show ?thesis by (simp add: deque_append_def)
next
  case False
  then have "Suc (length xs) - m = Suc (length xs - m)" by simp
  moreover have "tl (drop (length xs - m) xs @ [e]) = drop (Suc (length xs - m)) (xs @ [e])"
    by (rule tl_drop_snoc) simp
  moreover have "length (drop (length xs - m) xs @ [e]) > m" using False by simp
  ultimately show ?thesis by (simp add: deque_append_def Let_def del: drop_append)
qed

lemma foldl_push_history:
  "analysis_history s = [] \<Longrightarrow>
     analysis_history (foldl push s es) = drop (length es - nat (max_interactions s)) es"
proof (induction es rule: rev_induct)
  case Nil
  then show ?case by simp
next
  case (snoc e es)
  then show ?case
    using deque_append_window [of "nat (max_interactions s)" es e]
    by (simp add: push_fields foldl_push_max)
qed

text \<open>
  C2: for every sequence of N calls of \<open>add_analysis\<close> on a fresh session of capacity C
  with C < N, no call fails, the final history has length C, and it holds exactly the
  entries built by the last C calls, in the order of the calls.
\<close>

theorem rolling_history_keeps_last:
  assumes "0 \<le> C" and "nat C < length cs"
  shows "\<exists>s es. session_run C (map add_call cs) = Inr s \<and> list_all2 builds cs es \<and>
           length (analysis_history s) = nat C \<and>
           analysis_history s = drop (length cs - nat C) es"
proof -
  obtain es where es: "list_all2 builds cs es" using list_all2_builds by blast
  then have len: "length es = length cs" by (simp add: list_all2_lengthD)
  let ?s = "foldl push (empty_session C) es"
  have run: "session_run C (map add_call cs) = Inr ?s"
    using assms(1) es by (simp add: session_run_def init_def run_add_calls)
  have "analysis_history ?s = drop (length es - nat C) es"
    using foldl_push_history [of "empty_session C" es] by (simp add: empty_session_def)
  with run es len assms(2) show ?thesis by auto
qed

lemma last_two_of_three:
  "list_all2 builds [c1, c2, c3] es \<Longrightarrow> map question (drop 1 es) = [fst c2, fst c3]"
  by (auto simp: list_all2_Cons1 builds_question)

theorem rolling_history_keeps_last_witness:
  "(0::int) \<le> 2 \<and>
   nat 2 < length [(ascii ''q1'', r_none, ascii ''general'', ascii ''t1''),
                   (ascii ''q2'', r_corr, ascii ''correlation'', ascii ''t2''),
                   (ascii ''q3'', r_none, ascii ''summary'', ascii ''t3'')] \<and>
   (\<exists>s. session_run 2
          (map add_call [(ascii ''q1'', r_none, ascii ''general'', ascii ''t1''),
                         (ascii ''q2'', r_corr, ascii ''correlation'', ascii ''t2''),
                         (ascii ''q3'', r_none, ascii ''summary'', ascii ''t3'')]) = Inr s \<and>
        map question (analysis_history s) = [ascii ''q2'', ascii ''q3''])"
proof -
  let ?cs = "[(ascii ''q1'', r_none, ascii ''general'', ascii ''t1''),
              (ascii ''q2'', r_corr, ascii ''correlation'', ascii ''t2''),
              (ascii ''q3'', r_none, ascii ''summary'', ascii ''t3'')]"
  have a: "(0::int) \<le> 2" by simp
  have b: "nat 2 < length ?cs" by simp
  have d: "length ?cs - nat 2 = 1" by simp
  from rolling_history_keeps_last [OF a b] obtain s where
    "\<exists>es. session_run 2 (map add_call ?cs) = Inr s \<and> list_all2 builds ?cs es \<and>
       length (analysis_history s) = nat 2 \<and>
       analysis_history s = drop (length ?cs - nat 2) es" ..
  then obtain es where all:
    "session_run 2 (map add_call ?cs) = Inr s \<and> list_all2 builds ?cs es \<and>
       length (analysis_history s) = nat 2 \<and>
       analysis_history s = drop (length ?cs - nat 2) es" ..
  from all have run: "session_run 2 (map add_call ?cs) = Inr s" by (rule conjunct1)
  from all have es: "list_all2 builds ?cs es" by (elim conjE)
  from all have hist: "analysis_history s = drop (length ?cs - nat 2) es" by (elim conjE)
  have "map question (drop 1 es) = [ascii ''q2'', ascii ''q3'']"
    using last_two_of_three [OF es] by (simp only: fst_conv)
  then have q: "map question (analysis_history s) = [ascii ''q2'', ascii ''q3'']"
    by (simp only: hist d)
  show ?thesis
  proof (intro conjI exI)
    show "(0::int) \<le> 2" by (rule a)
    show "nat 2 < length ?cs" by (rule b)
    show "session_run 2 (map add_call ?cs) = Inr s" by (rule run)
    show "map question (analysis_history s) = [ascii ''q2'', ascii ''q3'']" by (rule q)
  qed
qed

section \<open>Aggregate counts outlive eviction\<close>

lemma push_data_insights:
  "map_of (data_insights (push s e)) t =
     (if t = analysis_type e
      then Some \<lparr>i_count = insight_count s t + 1,
                 i_patterns = foldl (\<lambda>ps (pattern, v). AList.update pattern v ps)
                   (i_patterns (case map_of (data_insights s) t of None \<Rightarrow> new_insight | Some b \<Rightarrow> b))
                   (data_patterns e),
                 i_last_analysis = Some (timestamp e),
                 i_key_findings =
                   i_key_findings (case map_of (data_insights s) t of None \<Rightarrow> new_insight | Some b \<Rightarrow> b) @
                   take 3 (key_findings e)\<rparr>
      else map_of (data_insights s) t)"
  by (simp add: push_def update_global_patterns_def update_insights_def Let_def
      update_conv' insight_count_def new_insight_def split: option.split)

lemma push_insight_count:
  "insight_count (push s e) t = insight_count s t + (if analysis_type e = t then 1 else 0)"
  by (simp add: insight_count_def [of "push s e"] push_data_insights) (simp add: insight_count_def)

lemma foldl_push_insight_count:
  "list_all (\<lambda>e. analysis_type e = t) es \<Longrightarrow>
     insight_count (foldl push s es) t = insight_count s t + int (length es)"
  by (induction es arbitrary: s) (simp_all add: push_insight_count)

lemma foldl_push_bucket:
  "es \<noteq> [] \<Longrightarrow> list_all (\<lambda>e. analysis_type e = t) es \<Longrightarrow>
     \<exists>b. map_of (data_insights (foldl push s es)) t = Some b"
proof (induction es arbitrary: s rule: rev_induct)
  case Nil
  then show ?case by simp
next
  case (snoc e es)
  then show ?case by (simp add: push_data_insights)
qed

lemma list_all2_builds_types:
  "list_all2 builds cs es \<Longrightarrow> list_all (\<lambda>c. call_type c = t) cs \<Longrightarrow>
     list_all (\<lambda>e. analysis_type e = t) es"
  by (induction cs es rule: list_all2_induct) (simp_all add: builds_type)

text \<open>
  C3: after 101 calls of \<open>add_analysis\<close>, all of type \<open>correlation\<close>, on a fresh session
  of capacity 100, the history has exactly 100 entries and the \<open>correlation\<close> bucket of
  \<open>data_insights\<close> has count 101: the count is not reduced when the history evicts.
\<close>

theorem counts_outlive_eviction:
  assumes "length cs = 101" and "list_all (\<lambda>c. call_type c = ascii ''correlation'') cs"
  shows "\<exists>s b. session_run 100 (map add_call cs) = Inr s \<and>
           length (analysis_history s) = 100 \<and>
           map_of (data_insights s) (ascii ''correlation'') = Some b \<and> i_count b = 101"
proof -
  obtain es where es: "list_all2 builds cs es" using list_all2_builds by blast
  then have len: "length es = 101" using assms(1) by (simp add: list_all2_lengthD)
  have types: "list_all (\<lambda>e. analysis_type e = ascii ''correlation'') es"
    using es assms(2) by (rule list_all2_builds_types)
  let ?s = "foldl push (empty_session 100) es"
  have run: "session_run 100 (map add_call cs) = Inr ?s"
    using es by (simp add: session_run_def init_def run_add_calls)
  have "analysis_history ?s = drop (length es - 100) es"
    using foldl_push_history [of "empty_session 100" es] by (simp add: empty_session_def)
  then have hist: "length (analysis_history ?s) = 100" using len by simp
  from len have "es \<noteq> []" by auto
  then obtain b where b: "map_of (data_insights ?s) (ascii ''correlation'') = Some b"
    using foldl_push_bucket types by blast
  have "insight_count ?s (ascii ''correlation'') = 101"
    using foldl_push_insight_count [OF types, of "empty_session 100"] len
    by (simp add: insight_count_def empty_session_def)
  with b have "i_count b = 101" by (simp add: insight_count_def)
  with run hist b show ?thesis by blast
qed

theorem counts_outlive_eviction_witness:
  "length (replicate 101 (ascii ''q'', \<lparr>analysis = None, plots = None\<rparr>, ascii ''correlation'', ascii ''t'')) = 101 \<and>
   list_all (\<lambda>c. call_type c = ascii ''correlation'')
     (replicate 101 (ascii ''q'', \<lparr>analysis = None, plots = None\<rparr>, ascii ''correlation'', ascii ''t'')) \<and>
   (\<exists>s b. session_run 100
       (map add_call (replicate 101 (ascii ''q'', \<lparr>analysis = None, plots = None\<rparr>, ascii ''correlation'', ascii ''t''))) = Inr s \<and>
       length (analysis_history s) = 100 \<and>
       map_of (data_insights s) (ascii ''correlation'') = Some b \<and> i_count b = 101)"
proof -
  let ?cs = "replicate 101 (ascii ''q'', \<lparr>analysis = None, plots = None\<rparr>, ascii ''correlation'', ascii ''t'')"
  have a: "length ?cs = 101" by simp
  have b: "list_all (\<lambda>c. call_type c = ascii ''correlation'') ?cs"
    by (simp add: list_all_length call_type_def)
  from counts_outlive_eviction [OF a b] a b show ?thesis by blast
qed

section \<open>The global pattern tracker\<close>

lemma str_contains_trans:
  "str_contains a b \<Longrightarrow> str_contains b c \<Longrightarrow> str_contains a c"
  unfolding str_contains_def by (rule sublist_order.order_trans)

lemma update_fresh: "k \<notin> fst ` set al \<Longrightarrow> AList.update k v al = al @ [(k, v)]"
  by (induction al) auto

lemma count_pattern_fresh:
  "k \<notin> fst ` set gp \<Longrightarrow> count_pattern t gp k = gp @ [(k, stat_once t)]"
  by (simp add: count_pattern_def map_of_eq_None_iff [THEN iffD2] update_fresh
      new_pattern_stat_def stat_once_def)

lemma foldl_count_pattern_fresh:
  "distinct ks \<Longrightarrow> set ks \<inter> fst ` set gp = {} \<Longrightarrow>
     foldl (count_pattern t) gp ks = gp @ map (\<lambda>k. (k, stat_once t)) ks"
proof (induction ks arbitrary: gp)
  case Nil
  then show ?case by simp
next
  case (Cons k ks)
  then have "k \<notin> fst ` set gp" by auto
  then have step: "count_pattern t gp k = gp @ [(k, stat_once t)]"
    by (rule count_pattern_fresh)
  have "set ks \<inter> fst ` set (gp @ [(k, stat_once t)]) = {}"
    using Cons.prems by auto
  with Cons.IH [of "gp @ [(k, stat_once t)]"] Cons.prems(1) step show ?case by simp
qed

lemma map_of_tabulate:
  "map_of (map (\<lambda>k. (k, v)) ks) k = (if k \<in> set ks then Some v else None)"
  by (induction ks) auto

lemma first_add_global_patterns:
  "0 \<le> m \<Longrightarrow>
   \<exists>s. session_run m [AddAnalysis q r t now] = Inr s \<and>
       global_patterns s =
         map (\<lambda>k. (k, stat_once t))
           (filter (satisfied (str_lower (get_analysis r))) pattern_vocabulary)"
proof -
  assume m: "0 \<le> m"
  obtain e where e: "memory_entry_of q r t now = Inr e" and ty: "analysis_type e = t"
    and pat: "data_patterns e = extract_patterns r"
    using memory_entry_of_total [of q r t now] by blast
  let ?ks = "filter (satisfied (str_lower (get_analysis r))) pattern_vocabulary"
  have keys: "map fst (data_patterns e) = ?ks"
    by (simp add: pat extract_patterns_eq comp_def)
  have "distinct ?ks" using distinct_pattern_vocabulary by simp
  then have "foldl (count_pattern t) [] ?ks = map (\<lambda>k. (k, stat_once t)) ?ks"
    using foldl_count_pattern_fresh [of ?ks "[]" t] by simp
  then have "global_patterns (push (empty_session m) e) = map (\<lambda>k. (k, stat_once t)) ?ks"
    by (simp add: push_fields keys ty empty_session_def)
  moreover have "session_run m [AddAnalysis q r t now] = Inr (push (empty_session m) e)"
    using m e by (simp add: session_run_def init_def add_analysis_def push_def)
  ultimately show ?thesis by blast
qed

lemma correlacao_forte_triggers:
  assumes "str_contains kw_correlacao_forte text \<or>
           str_contains kw_correlacao_forte (str_lower text)"
  shows "correlation_trigger (str_lower text) \<and> strong_trigger (str_lower text)"
proof -
  have "keeps_case kw_correlacao_forte"
    by code_simp
  with assms have low: "str_contains kw_correlacao_forte (str_lower text)"
    by (auto intro: str_contains_lower)
  have "str_contains kw_correlacao kw_correlacao_forte"
    by (simp add: str_contains_def kw_correlacao_def kw_correlacao_forte_def ascii_def
        sublist_code)
  moreover have "str_contains (ascii ''forte'') kw_correlacao_forte"
    by (simp add: str_contains_def kw_correlacao_forte_def ascii_def sublist_code)
  ultimately show ?thesis
    using low by (auto simp: correlation_trigger_def strong_trigger_def
        intro: str_contains_trans)
qed

text \<open>
  C8, as the code has it: after one \<open>add_analysis\<close> on a fresh session with type
  \<open>correlation\<close> and a text containing the phrase "correlacao forte" (in Portuguese
  spelling; as written or once the text is lower-cased), the tracker holds \<open>has_correlations\<close> and \<open>strong_correlations\<close>, each with
  count 1 and analyses \<open>[correlation]\<close>, and every entry it holds has that value; the two
  are its only entries when the lower-cased text triggers no other keyword family
  (outlier, asymmetric, cluster, temporal).
\<close>

theorem first_correlation_patterns:
  assumes "0 \<le> m"
    and "str_contains kw_correlacao_forte (get_analysis r) \<or>
         str_contains kw_correlacao_forte (str_lower (get_analysis r))"
  shows "\<exists>s. session_run m [AddAnalysis q r (ascii ''correlation'') now] = Inr s \<and>
     map_of (global_patterns s) has_correlations = Some (stat_once (ascii ''correlation'')) \<and>
     map_of (global_patterns s) strong_correlations = Some (stat_once (ascii ''correlation'')) \<and>
     (\<forall>k d. map_of (global_patterns s) k = Some d \<longrightarrow> d = stat_once (ascii ''correlation'')) \<and>
     (\<not> outlier_trigger (str_lower (get_analysis r)) \<and>
      \<not> asymmetric_trigger (str_lower (get_analysis r)) \<and>
      \<not> cluster_trigger (str_lower (get_analysis r)) \<and>
      \<not> temporal_trigger (str_lower (get_analysis r)) \<longrightarrow>
      global_patterns s =
        [(has_correlations, stat_once (ascii ''correlation'')),
         (strong_correlations, stat_once (ascii ''correlation''))])"
proof -
  let ?lt = "str_lower (get_analysis r)"
  let ?st = "stat_once (ascii ''correlation'')"
  obtain s where run: "session_run m [AddAnalysis q r (ascii ''correlation'') now] = Inr s"
    and gp: "global_patterns s =
       map (\<lambda>k. (k, ?st)) (filter (satisfied ?lt) pattern_vocabulary)"
    using first_add_global_patterns [OF assms(1)] by blast
  have trig: "correlation_trigger ?lt" "strong_trigger ?lt"
    using correlacao_forte_triggers [OF assms(2)] by simp_all
  have hc: "map_of (global_patterns s) has_correlations = Some ?st"
    by (simp add: gp map_of_tabulate satisfied_simps trig pattern_vocabulary_def)
  have sc: "map_of (global_patterns s) strong_correlations = Some ?st"
    by (simp add: gp map_of_tabulate satisfied_simps trig pattern_vocabulary_def)
  have every: "\<forall>k d. map_of (global_patterns s) k = Some d \<longrightarrow> d = ?st"
    by (simp add: gp map_of_tabulate)
  have only: "\<not> outlier_trigger ?lt \<and> \<not> asymmetric_trigger ?lt \<and> \<not> cluster_trigger ?lt \<and>
      \<not> temporal_trigger ?lt \<longrightarrow>
      global_patterns s = [(has_correlations, ?st), (strong_correlations, ?st)]"
    by (simp add: gp satisfied_simps trig pattern_vocabulary_def)
  from run hc sc every only show ?thesis by blast
qed

theorem first_correlation_patterns_witness:
  "(0::int) \<le> 100 \<and> str_contains kw_correlacao_forte (get_analysis r_corr) \<and>
   (\<exists>s. session_run 100 [AddAnalysis (ascii ''q'') r_corr (ascii ''correlation'') (ascii ''t'')] =
          Inr s \<and>
        global_patterns s =
          [(has_correlations, stat_once (ascii ''correlation'')),
           (strong_correlations, stat_once (ascii ''correlation''))])"
proof -
  have m: "(0::int) \<le> 100" by simp
  have c: "str_contains kw_correlacao_forte (get_analysis r_corr)"
    by code_simp
  have n: "\<not> outlier_trigger (str_lower (get_analysis r_corr)) \<and>
      \<not> asymmetric_trigger (str_lower (get_analysis r_corr)) \<and>
      \<not> cluster_trigger (str_lower (get_analysis r_corr)) \<and>
      \<not> temporal_trigger (str_lower (get_analysis r_corr))"
    by code_simp
  from first_correlation_patterns [OF m c [THEN disjI1], of "ascii ''q''" "ascii ''t''"] n m c
  show ?thesis by blast
qed

text \<open>
  The tracker holds a third entry when the text also names an outlier: it does not hold
  exactly the two correlation patterns for every text that contains the phrase.
\<close>

theorem first_correlation_patterns_counterexample:
  "str_contains kw_correlacao_forte (get_analysis r_corr_outlier) \<and>
   map_sum id global_patterns
     (session_run 100
        [AddAnalysis (ascii ''q'') r_corr_outlier (ascii ''correlation'') (ascii ''t'')]) =
   Inr [(has_correlations, stat_once (ascii ''correlation'')),
        (strong_correlations, stat_once (ascii ''correlation'')),
        (has_outliers, stat_once (ascii ''correlation''))]"
  by code_simp

text \<open>
  Lower-casing decides what is triggered: a text that writes "SKEW" in capitals, with the
  Kelvin sign U+212A for the K, has a third tracked pattern too.
\<close>

lemma kelvin_skew_is_tracked:
  "map_sum id global_patterns
     (session_run 100
        [AddAnalysis (ascii ''q'') r_corr_kelvin (ascii ''correlation'') (ascii ''t'')]) =
   Inr [(has_correlations, stat_once (ascii ''correlation'')),
        (strong_correlations, stat_once (ascii ''correlation'')),
        (asymmetric_distributions, stat_once (ascii ''correlation''))]"
  by code_simp

lemma map_of_count_pattern:
  "map_of (count_pattern t gp k) =
     (map_of gp)(k \<mapsto> \<lparr>p_count = p_count (case map_of gp k of None \<Rightarrow> new_pattern_stat | Some d \<Rightarrow> d) + 1,
                       p_analyses = p_analyses (case map_of gp k of None \<Rightarrow> new_pattern_stat | Some d \<Rightarrow> d) @ [t]\<rparr>)"
  by (simp add: count_pattern_def Let_def update_conv')

lemma counts_match_count_pattern: "counts_match gp \<Longrightarrow> counts_match (count_pattern t gp k)"
  unfolding counts_match_def map_of_count_pattern
  by (auto simp: new_pattern_stat_def split: option.splits)

lemma counts_match_foldl:
  "counts_match gp \<Longrightarrow> counts_match (foldl (count_pattern t) gp ks)"
  by (induction ks arbitrary: gp) (simp_all add: counts_match_count_pattern)

lemma step_counts_match:
  "counts_match (global_patterns s) \<Longrightarrow>
     \<exists>s'. step s c = Inr s' \<and> counts_match (global_patterns s')"
proof (cases c)
  case (AddAnalysis q r t now)
  assume inv: "counts_match (global_patterns s)"
  obtain e where "add_analysis s q r t now = Inr (push s e)"
    using add_analysis_push by blast
  with inv AddAnalysis show ?thesis by (simp add: push_fields counts_match_foldl)
next
  case Clear
  then show ?thesis by (simp add: clear_def counts_match_def)
qed

lemma run_counts_match:
  "counts_match (global_patterns s) \<Longrightarrow>
     \<exists>s'. run s cs = Inr s' \<and> counts_match (global_patterns s')"
proof (induction cs arbitrary: s)
  case Nil
  then show ?case by simp
next
  case (Cons c cs)
  then obtain s1 where "step s c = Inr s1" "counts_match (global_patterns s1)"
    using step_counts_match by blast
  with Cons.IH [of s1] show ?case by simp
qed

text \<open>
  C10: every run of \<open>add_analysis\<close> and \<open>clear\<close> calls from a fresh session succeeds, and
  in the state it reaches the count of every tracked pattern equals the length of the
  pattern's list of analyses.
\<close>

theorem pattern_count_is_length:
  "0 \<le> m \<Longrightarrow>
     \<exists>s. session_run m cs = Inr s \<and>
         (\<forall>k d. map_of (global_patterns s) k = Some d \<longrightarrow>
                p_count d = int (length (p_analyses d)))"
proof -
  assume "0 \<le> m"
  moreover have "counts_match (global_patterns (empty_session m))"
    by (simp add: counts_match_def empty_session_def)
  ultimately show ?thesis
    using run_counts_match [of "empty_session m" cs]
    by (simp add: session_run_def init_def counts_match_def)
qed

lemma example_run:
  "map_sum id global_patterns
     (session_run 100
        [AddAnalysis (ascii ''q1'') r_corr_outlier (ascii ''correlation'') (ascii ''t1''),
         Clear,
         AddAnalysis (ascii ''q2'') r_corr (ascii ''correlation'') (ascii ''t2''),
         AddAnalysis (ascii ''q3'') r_corr_outlier (ascii ''outlier'') (ascii ''t3'')]) =
   Inr [(has_correlations,
           \<lparr>p_count = 2, p_analyses = [ascii ''correlation'', ascii ''outlier'']\<rparr>),
        (strong_correlations,
           \<lparr>p_count = 2, p_analyses = [ascii ''correlation'', ascii ''outlier'']\<rparr>),
        (has_outliers, \<lparr>p_count = 1, p_analyses = [ascii ''outlier'']\<rparr>)]"
  by code_simp

theorem pattern_count_is_length_witness:
  "(0::int) \<le> 100 \<and>
   (\<exists>s d. session_run 100
          [AddAnalysis (ascii ''q1'') r_corr_outlier (ascii ''correlation'') (ascii ''t1''),
           Clear,
           AddAnalysis (ascii ''q2'') r_corr (ascii ''correlation'') (ascii ''t2''),
           AddAnalysis (ascii ''q3'') r_corr_outlier (ascii ''outlier'') (ascii ''t3'')] = Inr s \<and>
        map_of (global_patterns s) has_correlations = Some d \<and>
        p_analyses d = [ascii ''correlation'', ascii ''outlier''] \<and>
        p_count d = int (length (p_analyses d)))"
proof -
  let ?cs = "[AddAnalysis (ascii ''q1'') r_corr_outlier (ascii ''correlation'') (ascii ''t1''),
           Clear,
           AddAnalysis (ascii ''q2'') r_corr (ascii ''correlation'') (ascii ''t2''),
           AddAnalysis (ascii ''q3'') r_corr_outlier (ascii ''outlier'') (ascii ''t3'')]"
  let ?d = "\<lparr>p_count = 2, p_analyses = [ascii ''correlation'', ascii ''outlier'']\<rparr>"
  have m: "(0::int) \<le> 100" by simp
  from pattern_count_is_length [OF m, of ?cs] obtain s where both:
    "session_run 100 ?cs = Inr s \<and>
     (\<forall>k d. map_of (global_patterns s) k = Some d \<longrightarrow>
            p_count d = int (length (p_analyses d)))" ..
  from both have run: "session_run 100 ?cs = Inr s" by (rule conjunct1)
  from both have inv: "\<forall>k d. map_of (global_patterns s) k = Some d \<longrightarrow>
            p_count d = int (length (p_analyses d))" by (rule conjunct2)
  from example_run have "global_patterns s =
      [(has_correlations, ?d), (strong_correlations, ?d),
       (has_outliers, \<lparr>p_count = 1, p_analyses = [ascii ''outlier'']\<rparr>)]"
    unfolding run by (simp only: map_sum.simps sum.inject)
  then have look: "map_of (global_patterns s) has_correlations = Some ?d"
    by (simp only: map_of.simps fst_conv snd_conv fun_upd_same)
  from inv have "map_of (global_patterns s) has_correlations = Some ?d \<longrightarrow>
      p_count ?d = int (length (p_analyses ?d))" by (elim allE)
  with look have cnt: "p_count ?d = int (length (p_analyses ?d))" by (rule rev_mp)
  have an: "p_analyses ?d = [ascii ''correlation'', ascii ''outlier'']"
    by (simp only: pattern_stat.select_convs)
  show ?thesis
  proof (intro conjI exI)
    show "(0::int) \<le> 100" by (rule m)
    show "session_run 100 ?cs = Inr s" by (rule run)
    show "map_of (global_patterns s) has_correlations = Some ?d" by (rule look)
    show "p_analyses ?d = [ascii ''correlation'', ascii ''outlier'']" by (rule an)
    show "p_count ?d = int (length (p_analyses ?d))" by (rule cnt)
  qed
qed

section \<open>The relevance ranking\<close>

lemma insort_key_map_pair:
  "insort_key (\<lambda>x. - snd x) (e, f e) (map (\<lambda>e. (e, f e)) es) =
     map (\<lambda>e. (e, f e)) (insort_key (\<lambda>e. - f e) e es)"
  by (induction es) simp_all

lemma sort_key_map_pair:
  "sort_key (\<lambda>x. - snd x) (map (\<lambda>e. (e, f e)) es) =
     map (\<lambda>e. (e, f e)) (sort_key (\<lambda>e. - f e) es)"
  by (induction es) (simp_all add: insort_key_map_pair)

lemma slice_to_map: "slice_to n (map f xs) = map f (slice_to n xs)"
  by (simp add: slice_to_def take_map)

lemma slice_to_take: "\<exists>k. slice_to n xs = take k xs"
  by (cases "n < 0") (auto simp: slice_to_def)

lemma slice_to_prefix: "prefix (slice_to n xs) xs"
  by (simp add: slice_to_def take_is_prefix)

lemma relevant_entries_eq:
  "relevant_entries s q =
     map (\<lambda>e. (e, relevance_score (str_lower q) e))
       (filter (\<lambda>e. relevance_score (str_lower q) e > 0) (rev (analysis_history s)))"
  by (simp add: relevant_entries_def Let_def filter_map comp_def)

lemma get_contextual_memory_eq: "get_contextual_memory s q n = slice_to n (ranking s q)"
  by (simp add: get_contextual_memory_def sort_by_score_desc_def relevant_entries_eq
      sort_key_map_pair slice_to_map ranking_def comp_def)

lemma set_ranking:
  "set (ranking s q) =
     {e \<in> set (analysis_history s). relevance_score (str_lower q) e > 0}"
  by (auto simp: ranking_def)

lemma sorted_ranking:
  "sorted (map (\<lambda>e. - relevance_score (str_lower q) e) (ranking s q))"
  by (simp add: ranking_def)

lemma ranking_stable:
  "filter (\<lambda>e. relevance_score (str_lower q) e = k) (ranking s q) =
     (if k > 0 then filter (\<lambda>e. relevance_score (str_lower q) e = k) (rev (analysis_history s))
      else [])"
proof -
  let ?sc = "relevance_score (str_lower q)"
  let ?es = "filter (\<lambda>e. ?sc e > 0) (rev (analysis_history s))"
  have "filter (\<lambda>e. - ?sc e = - k) (sort_key (\<lambda>e. - ?sc e) ?es) =
        filter (\<lambda>e. - ?sc e = - k) ?es"
    by (rule sort_key_stable)
  then have "filter (\<lambda>e. ?sc e = k) (ranking s q) = filter (\<lambda>e. ?sc e = k) ?es"
    by (simp add: ranking_def)
  also have "\<dots> = (if k > 0 then filter (\<lambda>e. ?sc e = k) (rev (analysis_history s)) else [])"
    by (auto intro: filter_cong simp: filter_empty_conv)
  finally show ?thesis .
qed

lemma sorted_prefix: "prefix xs ys \<Longrightarrow> sorted_wrt R ys \<Longrightarrow> sorted_wrt R xs"
  by (auto simp: prefix_def sorted_wrt_append)

text \<open>
  C5, as the code has it: for every session state, question and limit \<open>n\<close>,
  \<open>get_contextual_memory\<close> returns at most \<open>n\<close> entries when \<open>n\<close> is not negative (and
  never more than the history holds); whatever \<open>n\<close> is, no returned entry has score 0,
  the result is sorted by falling score, and the entries of any one score come in the
  order of the newest-first walk of the history; an empty history gives an empty result.
\<close>

theorem contextual_memory_ranked:
  "(0 \<le> n \<longrightarrow> int (length (get_contextual_memory s q n)) \<le> n) \<and>
   length (get_contextual_memory s q n) \<le> length (analysis_history s) \<and>
   (\<forall>e \<in> set (get_contextual_memory s q n). relevance_score (str_lower q) e > 0) \<and>
   sorted_wrt (\<lambda>a b. relevance_score (str_lower q) a \<ge> relevance_score (str_lower q) b)
     (get_contextual_memory s q n) \<and>
   prefix (filter (\<lambda>e. relevance_score (str_lower q) e = k) (get_contextual_memory s q n))
          (filter (\<lambda>e. relevance_score (str_lower q) e = k) (rev (analysis_history s))) \<and>
   (analysis_history s = [] \<longrightarrow> get_contextual_memory s q n = [])"
proof (intro conjI)
  let ?sc = "relevance_score (str_lower q)"
  let ?r = "get_contextual_memory s q n"
  have pre: "prefix ?r (ranking s q)"
    by (simp add: get_contextual_memory_eq slice_to_prefix)
  show "0 \<le> n \<longrightarrow> int (length ?r) \<le> n"
    by (auto simp: get_contextual_memory_eq slice_to_def min_def)
  have "length ?r \<le> length (ranking s q)" using pre by (rule prefix_length_le)
  also have "\<dots> \<le> length (analysis_history s)"
    using length_filter_le [of "\<lambda>e. ?sc e > 0" "rev (analysis_history s)"]
    by (simp add: ranking_def)
  finally show "length ?r \<le> length (analysis_history s)" .
  show "\<forall>e \<in> set ?r. ?sc e > 0"
    using set_mono_prefix [OF pre] by (auto simp: set_ranking)
  have "sorted_wrt (\<lambda>a b. ?sc a \<ge> ?sc b) (ranking s q)"
    using sorted_ranking [of q s] by (simp add: sorted_map)
  with pre show "sorted_wrt (\<lambda>a b. ?sc a \<ge> ?sc b) ?r" by (rule sorted_prefix)
  have "prefix (filter (\<lambda>e. ?sc e = k) ?r) (filter (\<lambda>e. ?sc e = k) (ranking s q))"
    using pre by (rule filter_mono_prefix)
  then show "prefix (filter (\<lambda>e. ?sc e = k) ?r)
      (filter (\<lambda>e. ?sc e = k) (rev (analysis_history s)))"
    by (simp add: ranking_stable split: if_splits)
  show "analysis_history s = [] \<longrightarrow> ?r = []"
    by (simp add: get_contextual_memory_eq ranking_def slice_to_def)
qed

theorem contextual_memory_ranked_witness:
  "(0::int) \<le> 1 \<and> int (length (get_contextual_memory two_analyses q_corr 1)) \<le> 1 \<and>
   entry_corr \<in> set (get_contextual_memory two_analyses q_corr 1) \<and>
   0 < relevance_score (str_lower q_corr) entry_corr \<and>
   analysis_history (empty_session 100) = [] \<and>
   get_contextual_memory (empty_session 100) q_corr 1 = []"
proof -
  note ranked = contextual_memory_ranked [of 1 two_analyses q_corr 5]
  note empty = contextual_memory_ranked [of 1 "empty_session 100" q_corr 5]
  have n: "(0::int) \<le> 1" by simp
  have mem: "entry_corr \<in> set (get_contextual_memory two_analyses q_corr 1)" by code_simp
  have h: "analysis_history (empty_session 100) = []" by (simp add: empty_session_def)
  from ranked have "0 \<le> (1::int) \<longrightarrow> int (length (get_contextual_memory two_analyses q_corr 1)) \<le> 1"
    by (rule conjunct1)
  with n have len: "int (length (get_contextual_memory two_analyses q_corr 1)) \<le> 1"
    by (rule rev_mp)
  from ranked have "\<forall>e \<in> set (get_contextual_memory two_analyses q_corr 1).
      0 < relevance_score (str_lower q_corr) e"
    by (elim conjE)
  then have pos: "0 < relevance_score (str_lower q_corr) entry_corr"
    using mem by (rule bspec)
  from empty have "analysis_history (empty_session 100) = [] \<longrightarrow>
      get_contextual_memory (empty_session 100) q_corr 1 = []"
    by (elim conjE)
  with h have e: "get_contextual_memory (empty_session 100) q_corr 1 = []"
    by (rule rev_mp)
  show ?thesis
    by (intro conjI) (rule n len mem pos h e)+
qed

text \<open>
  For a negative limit the slice \<open>[:n]\<close> drops the last \<open>-n\<close> entries of the ranking
  instead: with two relevant entries and \<open>n = -1\<close> one entry is returned, which is more
  than \<open>n\<close>.
\<close>

theorem contextual_memory_ranked_counterexample:
  "session_run 100
     [AddAnalysis q_dados \<lparr>analysis = None, plots = None\<rparr> (ascii ''correlation'') (ascii ''t1''),
      AddAnalysis q_dados \<lparr>analysis = None, plots = None\<rparr> (ascii ''outlier'') (ascii ''t1'')] =
     Inr two_analyses \<and>
   get_contextual_memory two_analyses q_corr (- 1) = [entry_corr] \<and>
   \<not> int (length (get_contextual_memory two_analyses q_corr (- 1))) \<le> - 1"
  by code_simp

lemma type_relevance_match:
  "(tag, kws) \<in> set tk \<Longrightarrow> any_in kws ql \<Longrightarrow> type_relevance tk ql tag = 3"
  by (induction tk ql tag rule: type_relevance.induct) auto

lemma type_relevance_no_match:
  "\<forall>(tag, kws) \<in> set tk. any_in kws ql \<longrightarrow> t \<noteq> tag \<Longrightarrow> type_relevance tk ql t = 0"
  by (induction tk ql t rule: type_relevance.induct) auto

lemma question_similarity_range:
  "0 \<le> question_similarity ql e \<and> question_similarity ql e \<le> 2"
  by (simp add: question_similarity_def)

lemma question_similarity_cong:
  "question e2 = question e1 \<Longrightarrow> question_similarity ql e2 = question_similarity ql e1"
  by (simp add: question_similarity_def)

lemma type_keywords_keep_case:
  "\<forall>(tag, kws) \<in> set type_keywords. \<forall>kw \<in> set kws. keeps_case kw"
  by code_simp

lemma type_keywords_lower:
  "(tag, kws) \<in> set type_keywords \<Longrightarrow> kw \<in> set kws \<Longrightarrow> keeps_case kw"
  using type_keywords_keep_case by blast

lemma any_in_member: "kw \<in> set kws \<Longrightarrow> str_contains kw t \<Longrightarrow> any_in kws t"
  by (auto simp: any_in_def list_ex_iff)

lemma sorted_desc_before:
  assumes sorted: "sorted (map (\<lambda>e. - f e) xs)"
    and mem: "a \<in> set xs" and j: "j < length xs" and less: "f (xs ! j) < (f a :: int)"
  shows "\<exists>i<j. xs ! i = a"
proof -
  from mem obtain i where i: "i < length xs" "xs ! i = a"
    by (auto simp: in_set_conv_nth)
  have "i < j"
  proof (rule ccontr)
    assume "\<not> i < j"
    then have "j \<le> i" by simp
    with sorted i(1) have "map (\<lambda>e. - f e) xs ! j \<le> map (\<lambda>e. - f e) xs ! i"
      by (simp add: sorted_iff_nth_mono)
    with i j less show False by simp
  qed
  with i show ?thesis by blast
qed

text \<open>
  C4: when the question contains a keyword of one of the keyword families (as it is
  written, or once it is lower-cased, which is how the code reads it), an entry of
  the history whose type is the family's tag scores at least 3; an entry that differs
  from it only in its type, a type that matches no family the question triggers, scores
  less, and wherever it occurs in the result the matching entry occurs before it. The
  matching entry is in the result when the limit is the length of the history. (The
  types of the history need not be pairwise distinct for this.)
\<close>

theorem matching_type_outranks:
  assumes family: "(tag, kws) \<in> set type_keywords" and kw: "kw \<in> set kws"
    and asked: "str_contains kw q \<or> str_contains kw (str_lower q)"
    and e1: "e1 \<in> set (analysis_history s)" and matching: "analysis_type e1 = tag"
    and same: "e2 = e1\<lparr>analysis_type := t2\<rparr>"
    and other: "\<forall>(tag', kws') \<in> set type_keywords. any_in kws' (str_lower q) \<longrightarrow> t2 \<noteq> tag'"
  shows "3 \<le> relevance_score (str_lower q) e1 \<and>
         relevance_score (str_lower q) e2 < relevance_score (str_lower q) e1 \<and>
         e1 \<in> set (get_contextual_memory s q (int (length (analysis_history s)))) \<and>
         (\<forall>j < length (get_contextual_memory s q n).
            get_contextual_memory s q n ! j = e2 \<longrightarrow>
            (\<exists>i<j. get_contextual_memory s q n ! i = e1))"
proof -
  let ?ql = "str_lower q"
  let ?r = "get_contextual_memory s q n"
  have "str_contains kw ?ql"
    using asked type_keywords_lower [OF family kw] by (auto intro: str_contains_lower)
  with kw have "any_in kws ?ql" by (rule any_in_member)
  with family have t1: "type_relevance type_keywords ?ql (analysis_type e1) = 3"
    unfolding matching by (rule type_relevance_match)
  have t2: "type_relevance type_keywords ?ql (analysis_type e2) = 0"
    using other by (simp add: same type_relevance_no_match)
  have sim: "question_similarity ?ql e2 = question_similarity ?ql e1"
    by (rule question_similarity_cong) (simp add: same)
  have s1: "relevance_score ?ql e1 = question_similarity ?ql e1 + 3"
    by (simp add: relevance_score_def t1)
  have s2: "relevance_score ?ql e2 = question_similarity ?ql e1"
    by (simp add: relevance_score_def t2 sim)
  have ge: "3 \<le> relevance_score ?ql e1"
    using question_similarity_range [of ?ql e1] by (simp add: s1)
  have lt: "relevance_score ?ql e2 < relevance_score ?ql e1"
    by (simp add: s1 s2)
  have ranked: "e1 \<in> set (ranking s q)"
    using e1 ge by (simp add: set_ranking)
  have full: "get_contextual_memory s q (int (length (analysis_history s))) = ranking s q"
    using length_filter_le [of "\<lambda>e. relevance_score ?ql e > 0" "rev (analysis_history s)"]
    by (simp add: get_contextual_memory_eq slice_to_def ranking_def)
  have before: "\<forall>j < length ?r. ?r ! j = e2 \<longrightarrow> (\<exists>i<j. ?r ! i = e1)"
  proof (intro allI impI)
    fix j
    assume j: "j < length ?r" and at: "?r ! j = e2"
    obtain k where r: "?r = take k (ranking s q)"
      using slice_to_take [of n "ranking s q"] by (auto simp: get_contextual_memory_eq)
    from j have jk: "j < k" and jl: "j < length (ranking s q)" by (simp_all add: r)
    from at have "ranking s q ! j = e2" using jk by (simp add: r)
    with lt have "relevance_score ?ql (ranking s q ! j) < relevance_score ?ql e1" by simp
    with sorted_ranking [of q s] ranked jl obtain i where "i < j" "ranking s q ! i = e1"
      using sorted_desc_before [of "relevance_score ?ql" "ranking s q" e1 j] by blast
    with jk have "i < j \<and> ?r ! i = e1" by (simp add: r)
    then show "\<exists>i<j. ?r ! i = e1" by blast
  qed
  from ge lt ranked full before show ?thesis by simp
qed

lemma example_ranking: "get_contextual_memory two_analyses q_corr 3 = [entry_corr, entry_outlier]"
  by code_simp

theorem matching_type_outranks_witness:
  "(ascii ''correlation'',
      [ascii ''correla'' @ [231, 227] @ ascii ''o'', ascii ''rela'' @ [231, 227] @ ascii ''o'',
       ascii ''correlation'', ascii ''relaciona'']) \<in> set type_keywords \<and>
   str_contains (ascii ''correla'' @ [231, 227] @ ascii ''o'') q_corr \<and>
   entry_corr \<in> set (analysis_history two_analyses) \<and>
   analysis_type entry_corr = ascii ''correlation'' \<and>
   entry_outlier = entry_corr\<lparr>analysis_type := ascii ''outlier''\<rparr> \<and>
   3 \<le> relevance_score (str_lower q_corr) entry_corr \<and>
   relevance_score (str_lower q_corr) entry_outlier < relevance_score (str_lower q_corr) entry_corr \<and>
   get_contextual_memory two_analyses q_corr 3 = [entry_corr, entry_outlier]"
proof -
  let ?kws = "[ascii ''correla'' @ [231, 227] @ ascii ''o'', ascii ''rela'' @ [231, 227] @ ascii ''o'',
       ascii ''correlation'', ascii ''relaciona'']"
  have family: "(ascii ''correlation'', ?kws) \<in> set type_keywords" by code_simp
  have kw: "ascii ''correla'' @ [231, 227] @ ascii ''o'' \<in> set ?kws" by code_simp
  have asked: "str_contains (ascii ''correla'' @ [231, 227] @ ascii ''o'') q_corr" by code_simp
  have e1: "entry_corr \<in> set (analysis_history two_analyses)" by code_simp
  have matching: "analysis_type entry_corr = ascii ''correlation''" by code_simp
  have same: "entry_outlier = entry_corr\<lparr>analysis_type := ascii ''outlier''\<rparr>"
    by (rule entry_outlier_def)
  have other: "\<forall>(tag', kws') \<in> set type_keywords.
      any_in kws' (str_lower q_corr) \<longrightarrow> ascii ''outlier'' \<noteq> tag'"
    by code_simp
  note outranks =
    matching_type_outranks [OF family kw asked [THEN disjI1] e1 matching same other, of 3]
  from outranks have ge: "3 \<le> relevance_score (str_lower q_corr) entry_corr"
    by (rule conjunct1)
  from outranks have lt: "relevance_score (str_lower q_corr) entry_outlier <
      relevance_score (str_lower q_corr) entry_corr"
    by (elim conjE)
  show ?thesis
    by (intro conjI) (rule family asked e1 matching same ge lt example_ranking)+
qed

section \<open>The sections of the conclusions\<close>

lemma join_append:
  "xs \<noteq> [] \<Longrightarrow> ys \<noteq> [] \<Longrightarrow> join sep (xs @ ys) = join sep xs @ sep @ join sep ys"
proof (induction sep xs rule: join.induct)
  case (1 sep)
  then show ?case by simp
next
  case (2 sep x)
  then show ?case by (cases ys) simp_all
next
  case (3 sep x y zs)
  then show ?case by simp
qed

lemma sublist_join:
  assumes "sublist ys parts"
  shows "str_contains (join sep ys) (join sep parts)"
proof (cases "ys = []")
  case True
  then show ?thesis by (simp add: str_contains_def)
next
  case False
  from assms obtain xs zs where parts: "parts = xs @ ys @ zs"
    by (auto simp: sublist_def)
  have tail: "\<exists>Z. join sep (ys @ zs) = join sep ys @ Z"
    using False by (cases "zs = []") (auto simp: join_append)
  then obtain Z where Z: "join sep (ys @ zs) = join sep ys @ Z" by blast
  have "\<exists>X. join sep (xs @ ys @ zs) = X @ join sep ys @ Z"
  proof (cases "xs = []")
    case True
    with Z show ?thesis by (metis append_Nil)
  next
    case nonempty: False
    from False have "ys @ zs \<noteq> []" by simp
    with nonempty have "join sep (xs @ ys @ zs) = join sep xs @ sep @ join sep (ys @ zs)"
      by (rule join_append)
    with Z have "join sep (xs @ ys @ zs) = (join sep xs @ sep) @ join sep ys @ Z" by simp
    then show ?thesis by blast
  qed
  then show ?thesis by (auto simp: parts str_contains_def sublist_def)
qed

lemma str_contains_join: "x \<in> set parts \<Longrightarrow> str_contains x (join sep parts)"
proof -
  assume "x \<in> set parts"
  then have "sublist [x] parts"
    by (metis append_Cons append_Nil split_list sublist_appendI)
  then show ?thesis using sublist_join [of "[x]" parts sep] by simp
qed

lemma report_is_join:
  "analysis_history s \<noteq> [] \<Longrightarrow>
     generate_comprehensive_conclusions set_list s = join [10] (conclusions set_list s)"
  by (simp add: generate_comprehensive_conclusions_def)

lemma report_contains_lines:
  "analysis_history s \<noteq> [] \<Longrightarrow> sublist ys (conclusions set_list s) \<Longrightarrow>
     str_contains (join [10] ys) (generate_comprehensive_conclusions set_list s)"
  by (simp add: report_is_join sublist_join)

lemma sublist_middle: "zs = xs @ ys @ ws \<Longrightarrow> sublist ys zs"
  by simp

text \<open>Where the sections stand in the list.\<close>

lemma sections_in_conclusions:
  "sublist (section1 s) (conclusions set_list s)"
  "sublist (section2 set_list s) (conclusions set_list s)"
  "sublist (section3 set_list s @ section4 s) (conclusions set_list s)"
  "sublist (section5 s @ section6 s @ section7 s @ section8 set_list s) (conclusions set_list s)"
  "sublist (section9 set_list s) (conclusions set_list s)"
proof -
  let ?c = "conclusions set_list s"
  show "sublist (section1 s) ?c"
    by (rule sublist_middle [where xs = "report_head s"
          and ws = "section2 set_list s @ section3 set_list s @ section4 s @ section5 s @
            section6 s @ section7 s @ section8 set_list s @ section9 set_list s"])
       (simp add: conclusions_def)
  show "sublist (section2 set_list s) ?c"
    by (rule sublist_middle [where xs = "report_head s @ section1 s"
          and ws = "section3 set_list s @ section4 s @ section5 s @
            section6 s @ section7 s @ section8 set_list s @ section9 set_list s"])
       (simp add: conclusions_def)
  show "sublist (section3 set_list s @ section4 s) ?c"
    by (rule sublist_middle [where xs = "report_head s @ section1 s @ section2 set_list s"
          and ws = "section5 s @ section6 s @ section7 s @ section8 set_list s @
            section9 set_list s"])
       (simp add: conclusions_def)
  show "sublist (section5 s @ section6 s @ section7 s @ section8 set_list s) ?c"
    by (rule sublist_middle [where xs = "report_head s @ section1 s @ section2 set_list s @
            section3 set_list s @ section4 s"
          and ws = "section9 set_list s"])
       (simp add: conclusions_def)
  show "sublist (section9 set_list s) ?c"
    by (rule sublist_middle [where xs = "report_head s @ section1 s @ section2 set_list s @
            section3 set_list s @ section4 s @ section5 s @ section6 s @ section7 s @
            section8 set_list s"
          and ws = "[]"])
       (simp add: conclusions_def)
qed

lemma sublist_trans_lines:
  "sublist ys zs \<Longrightarrow> sublist zs (conclusions set_list s) \<Longrightarrow>
     sublist ys (conclusions set_list s)"
  by (rule sublist_order.order_trans)

lemma header_in_section:
  "sublist [header1] (section1 s)"
  "sublist [header2] (section2 set_list s)"
  "sublist [header3] (section3 set_list s @ section4 s)"
  "sublist [header4] (section3 set_list s @ section4 s)"
  "sublist [header5] (section5 s @ section6 s @ section7 s @ section8 set_list s)"
  "sublist [header8] (section5 s @ section6 s @ section7 s @ section8 set_list s)"
  "sublist [header9] (section9 set_list s)"
proof -
  have single: "\<And>h (xs :: pystr list). h \<in> set xs \<Longrightarrow> sublist [h] xs"
    by (metis append_Cons append_Nil split_list sublist_appendI)
  show "sublist [header1] (section1 s)"
    by (rule single) (simp add: section1_def)
  show "sublist [header2] (section2 set_list s)"
    by (rule single) (simp add: section2_def)
  show "sublist [header3] (section3 set_list s @ section4 s)"
    by (rule single) (simp add: section3_def)
  show "sublist [header4] (section3 set_list s @ section4 s)"
    by (rule single) (simp add: section4_def)
  show "sublist [header5] (section5 s @ section6 s @ section7 s @ section8 set_list s)"
    by (rule single) (simp add: section5_def)
  show "sublist [header8] (section5 s @ section6 s @ section7 s @ section8 set_list s)"
    by (rule single) (simp add: section8_def)
  show "sublist [header9] (section9 set_list s)"
    by (rule single) (simp add: section9_def)
qed

lemma header_lines:
  "sublist [header1] (conclusions set_list s)"
  "sublist [header2] (conclusions set_list s)"
  "sublist [header3] (conclusions set_list s)"
  "sublist [header4] (conclusions set_list s)"
  "sublist [header5] (conclusions set_list s)"
  "sublist [header8] (conclusions set_list s)"
  "sublist [header9] (conclusions set_list s)"
  by (rule sublist_trans_lines [OF header_in_section(1) sections_in_conclusions(1)]
      sublist_trans_lines [OF header_in_section(2) sections_in_conclusions(2)]
      sublist_trans_lines [OF header_in_section(3) sections_in_conclusions(3)]
      sublist_trans_lines [OF header_in_section(4) sections_in_conclusions(3)]
      sublist_trans_lines [OF header_in_section(5) sections_in_conclusions(4)]
      sublist_trans_lines [OF header_in_section(6) sections_in_conclusions(4)]
      sublist_trans_lines [OF header_in_section(7) sections_in_conclusions(5)])+

text \<open>What a section holds when its data is sparse.\<close>

lemma sparse_sections:
  "global_patterns s = [] \<Longrightarrow> section2 set_list s = [header2, no_patterns_line, []]"
  "\<not> tracked s has_outliers \<Longrightarrow> \<not> tracked s many_outliers \<Longrightarrow>
     \<not> tracked s asymmetric_distributions \<Longrightarrow>
     section4 s = [header4, good_quality_line, []]"
  "\<not> tracked s has_correlations \<Longrightarrow> section5 s = [header5, independent_line, []]"
  "take 8 (set_list (concat (map recommendations (analysis_history s)))) = [] \<Longrightarrow>
     section8 set_list s = [header8, keep_exploring_line, []]"
  by (simp_all add: section2_def section4_def section5_def section8_def Let_def)

lemma no_findings_no_lines:
  "list_all (\<lambda>item. i_key_findings (snd item) = []) items \<Longrightarrow>
     concat (map (findings_lines set_list) items) = []"
  by (induction items) (auto simp: findings_lines_def)

lemma section3_alone:
  "list_all (\<lambda>item. i_key_findings (snd item) = []) (data_insights s) \<Longrightarrow>
     section3 set_list s = [header3, []]"
  by (simp add: section3_def no_findings_no_lines)

lemma section3_then_4:
  assumes "list_all (\<lambda>item. i_key_findings (snd item) = []) (data_insights s)"
  shows "sublist [header3, [], header4] (conclusions set_list s)"
proof -
  have "\<exists>rest. section4 s = header4 # rest"
    by (simp add: section4_def)
  then obtain rest where "section4 s = header4 # rest" by blast
  with section3_alone [OF assms, of set_list]
  have "section3 set_list s @ section4 s = [] @ [header3, [], header4] @ rest"
    by simp
  then have "sublist [header3, [], header4] (section3 set_list s @ section4 s)"
    by (rule sublist_middle)
  then show ?thesis using sections_in_conclusions(3) by (rule sublist_trans_lines)
qed

lemma general_actions_last: "sublist general_actions (conclusions set_list s)"
proof -
  have "section9 set_list s =
      (header9 # recommended_analyses set_list s) @ general_actions @ []"
    by (simp add: section9_def)
  then have "sublist general_actions (section9 set_list s)"
    by (rule sublist_middle)
  then show ?thesis using sections_in_conclusions(5) by (rule sublist_trans_lines)
qed

lemma section5_to_8:
  "sublist (section5 s @ (if tracked s has_clusters then section6_lines else []) @
       (if tracked s has_temporal_patterns then section7_lines else []) @
       section8 set_list s)
     (conclusions set_list s)"
  using sections_in_conclusions(4) [of s set_list] by (simp add: section6_def section7_def)

lemma section_6_7_lines:
  "tracked s has_clusters \<Longrightarrow> sublist section6_lines (conclusions set_list s)"
  "tracked s has_temporal_patterns \<Longrightarrow> sublist section7_lines (conclusions set_list s)"
proof -
  assume "tracked s has_clusters"
  then have "section5 s @ section6 s @ section7 s @ section8 set_list s =
      section5 s @ section6_lines @ (section7 s @ section8 set_list s)"
    by (simp add: section6_def)
  then have "sublist section6_lines (section5 s @ section6 s @ section7 s @ section8 set_list s)"
    by (rule sublist_middle)
  then show "sublist section6_lines (conclusions set_list s)"
    using sections_in_conclusions(4) by (rule sublist_trans_lines)
next
  assume "tracked s has_temporal_patterns"
  then have "section5 s @ section6 s @ section7 s @ section8 set_list s =
      (section5 s @ section6 s) @ section7_lines @ section8 set_list s"
    by (simp add: section7_def)
  then have "sublist section7_lines (section5 s @ section6 s @ section7 s @ section8 set_list s)"
    by (rule sublist_middle)
  then show "sublist section7_lines (conclusions set_list s)"
    using sections_in_conclusions(4) by (rule sublist_trans_lines)
qed

lemma report_contains_line:
  "analysis_history s \<noteq> [] \<Longrightarrow> sublist [h] (conclusions set_list s) \<Longrightarrow>
     str_contains h (generate_comprehensive_conclusions set_list s)"
  using report_contains_lines [of s "[h]" set_list] by simp

lemma header_6_7_lines:
  "tracked s has_clusters \<Longrightarrow> sublist [header6] (conclusions set_list s)"
  "tracked s has_temporal_patterns \<Longrightarrow> sublist [header7] (conclusions set_list s)"
proof -
  have six: "sublist [header6] section6_lines"
    by (rule sublist_middle [where xs = "[]" and ws = "tl section6_lines"])
       (simp add: section6_lines_def)
  have seven: "sublist [header7] section7_lines"
    by (rule sublist_middle [where xs = "[]" and ws = "tl section7_lines"])
       (simp add: section7_lines_def)
  show "tracked s has_clusters \<Longrightarrow> sublist [header6] (conclusions set_list s)"
    using six section_6_7_lines(1) by (rule sublist_trans_lines)
  show "tracked s has_temporal_patterns \<Longrightarrow> sublist [header7] (conclusions set_list s)"
    using seven section_6_7_lines(2) by (rule sublist_trans_lines)
qed

text \<open>
  C1, as the code has it: for every session with at least one entry in the history, the
  text of \<open>generate_comprehensive_conclusions\<close> contains the headers of sections 1 to 5,
  8 and 9, whatever patterns are tracked. It contains the header of section 6, with the
  lines of that section, when \<open>has_clusters\<close> is tracked, and the header and lines of
  section 7 when \<open>has_temporal_patterns\<close> is tracked; a section whose pattern is not
  tracked has no line in the report, which is the head, sections 1 to 5, the tracked ones
  of sections 6 and 7, and sections 8 and 9, so that section 5 is followed at once by the
  next of these. Sparse data leaves a fallback line under the header in sections 2, 4,
  5 and 8, and the header alone in section 3; section 9 always ends with its four
  general lines.
\<close>

theorem conclusions_sections:
  assumes "analysis_history s \<noteq> []"
  shows
   "str_contains header1 (generate_comprehensive_conclusions set_list s) \<and>
    str_contains header2 (generate_comprehensive_conclusions set_list s) \<and>
    str_contains header3 (generate_comprehensive_conclusions set_list s) \<and>
    str_contains header4 (generate_comprehensive_conclusions set_list s) \<and>
    str_contains header5 (generate_comprehensive_conclusions set_list s) \<and>
    str_contains header8 (generate_comprehensive_conclusions set_list s) \<and>
    str_contains header9 (generate_comprehensive_conclusions set_list s) \<and>
    (tracked s has_clusters \<longrightarrow>
       str_contains header6 (generate_comprehensive_conclusions set_list s) \<and>
       str_contains (join [10] section6_lines)
         (generate_comprehensive_conclusions set_list s)) \<and>
    (tracked s has_temporal_patterns \<longrightarrow>
       str_contains header7 (generate_comprehensive_conclusions set_list s) \<and>
       str_contains (join [10] section7_lines)
         (generate_comprehensive_conclusions set_list s)) \<and>
    generate_comprehensive_conclusions set_list s =
      join [10]
        (report_head s @ section1 s @ section2 set_list s @ section3 set_list s @
         section4 s @ section5 s @
         (if tracked s has_clusters then section6_lines else []) @
         (if tracked s has_temporal_patterns then section7_lines else []) @
         section8 set_list s @ section9 set_list s) \<and>
    str_contains
      (join [10]
        (section5 s @
         (if tracked s has_clusters then section6_lines else []) @
         (if tracked s has_temporal_patterns then section7_lines else []) @
         section8 set_list s))
      (generate_comprehensive_conclusions set_list s) \<and>
    (global_patterns s = [] \<longrightarrow>
       str_contains (join [10] [header2, no_patterns_line, []])
         (generate_comprehensive_conclusions set_list s)) \<and>
    (list_all (\<lambda>item. i_key_findings (snd item) = []) (data_insights s) \<longrightarrow>
       str_contains (join [10] [header3, [], header4])
         (generate_comprehensive_conclusions set_list s)) \<and>
    (\<not> tracked s has_outliers \<and> \<not> tracked s many_outliers \<and>
     \<not> tracked s asymmetric_distributions \<longrightarrow>
       str_contains (join [10] [header4, good_quality_line, []])
         (generate_comprehensive_conclusions set_list s)) \<and>
    (\<not> tracked s has_correlations \<longrightarrow>
       str_contains (join [10] [header5, independent_line, []])
         (generate_comprehensive_conclusions set_list s)) \<and>
    (take 8 (set_list (concat (map recommendations (analysis_history s)))) = [] \<longrightarrow>
       str_contains (join [10] [header8, keep_exploring_line, []])
         (generate_comprehensive_conclusions set_list s)) \<and>
    str_contains (join [10] general_actions)
      (generate_comprehensive_conclusions set_list s)"
proof -
  let ?R = "generate_comprehensive_conclusions set_list s"
  note line = report_contains_line [OF assms]
  note lines = report_contains_lines [OF assms]
  have h: "str_contains header1 ?R" "str_contains header2 ?R" "str_contains header3 ?R"
    "str_contains header4 ?R" "str_contains header5 ?R" "str_contains header8 ?R"
    "str_contains header9 ?R"
    by (rule line, rule header_lines)+
  have six: "tracked s has_clusters \<longrightarrow>
      str_contains header6 ?R \<and> str_contains (join [10] section6_lines) ?R"
    by (intro impI conjI line lines header_6_7_lines section_6_7_lines)
  have seven: "tracked s has_temporal_patterns \<longrightarrow>
      str_contains header7 ?R \<and> str_contains (join [10] section7_lines) ?R"
    by (intro impI conjI line lines header_6_7_lines section_6_7_lines)
  have whole: "?R = join [10]
        (report_head s @ section1 s @ section2 set_list s @ section3 set_list s @
         section4 s @ section5 s @
         (if tracked s has_clusters then section6_lines else []) @
         (if tracked s has_temporal_patterns then section7_lines else []) @
         section8 set_list s @ section9 set_list s)"
    using assms
    by (simp add: generate_comprehensive_conclusions_def conclusions_def section6_def
        section7_def)
  have next_section: "str_contains
      (join [10]
        (section5 s @
         (if tracked s has_clusters then section6_lines else []) @
         (if tracked s has_temporal_patterns then section7_lines else []) @
         section8 set_list s)) ?R"
    by (rule lines, rule section5_to_8)
  have two: "global_patterns s = [] \<longrightarrow>
      str_contains (join [10] [header2, no_patterns_line, []]) ?R"
  proof
    assume "global_patterns s = []"
    then have "section2 set_list s = [header2, no_patterns_line, []]"
      by (rule sparse_sections(1))
    with sections_in_conclusions(2) [of set_list s]
    have "sublist [header2, no_patterns_line, []] (conclusions set_list s)" by simp
    then show "str_contains (join [10] [header2, no_patterns_line, []]) ?R" by (rule lines)
  qed
  have three: "list_all (\<lambda>item. i_key_findings (snd item) = []) (data_insights s) \<longrightarrow>
      str_contains (join [10] [header3, [], header4]) ?R"
    by (intro impI lines section3_then_4)
  have four: "\<not> tracked s has_outliers \<and> \<not> tracked s many_outliers \<and>
      \<not> tracked s asymmetric_distributions \<longrightarrow>
      str_contains (join [10] [header4, good_quality_line, []]) ?R"
  proof
    assume "\<not> tracked s has_outliers \<and> \<not> tracked s many_outliers \<and>
      \<not> tracked s asymmetric_distributions"
    then have eq: "section4 s = [header4, good_quality_line, []]"
      by (simp add: sparse_sections(2))
    have "section3 set_list s @ section4 s =
        section3 set_list s @ [header4, good_quality_line, []] @ []"
      by (simp add: eq)
    then have "sublist [header4, good_quality_line, []] (section3 set_list s @ section4 s)"
      by (rule sublist_middle)
    then have "sublist [header4, good_quality_line, []] (conclusions set_list s)"
      using sections_in_conclusions(3) by (rule sublist_trans_lines)
    then show "str_contains (join [10] [header4, good_quality_line, []]) ?R" by (rule lines)
  qed
  have five: "\<not> tracked s has_correlations \<longrightarrow>
      str_contains (join [10] [header5, independent_line, []]) ?R"
  proof
    assume "\<not> tracked s has_correlations"
    then have eq: "section5 s = [header5, independent_line, []]"
      by (rule sparse_sections(3))
    have "section5 s @ section6 s @ section7 s @ section8 set_list s =
        [] @ [header5, independent_line, []] @ (section6 s @ section7 s @ section8 set_list s)"
      by (simp add: eq)
    then have "sublist [header5, independent_line, []]
        (section5 s @ section6 s @ section7 s @ section8 set_list s)"
      by (rule sublist_middle)
    then have "sublist [header5, independent_line, []] (conclusions set_list s)"
      using sections_in_conclusions(4) by (rule sublist_trans_lines)
    then show "str_contains (join [10] [header5, independent_line, []]) ?R" by (rule lines)
  qed
  have eight: "take 8 (set_list (concat (map recommendations (analysis_history s)))) = [] \<longrightarrow>
      str_contains (join [10] [header8, keep_exploring_line, []]) ?R"
  proof
    assume "take 8 (set_list (concat (map recommendations (analysis_history s)))) = []"
    then have eq: "section8 set_list s = [header8, keep_exploring_line, []]"
      by (rule sparse_sections(4))
    have "section5 s @ section6 s @ section7 s @ section8 set_list s =
        (section5 s @ section6 s @ section7 s) @ [header8, keep_exploring_line, []] @ []"
      by (simp add: eq)
    then have "sublist [header8, keep_exploring_line, []]
        (section5 s @ section6 s @ section7 s @ section8 set_list s)"
      by (rule sublist_middle)
    then have "sublist [header8, keep_exploring_line, []] (conclusions set_list s)"
      using sections_in_conclusions(4) by (rule sublist_trans_lines)
    then show "str_contains (join [10] [header8, keep_exploring_line, []]) ?R" by (rule lines)
  qed
  have nine: "str_contains (join [10] general_actions) ?R"
    by (rule lines, rule general_actions_last)
  show ?thesis
    by (intro conjI) (rule h six seven whole next_section two three four five eight nine)+
qed

theorem conclusions_sections_witness:
  "session_run 100 [AddAnalysis q_grupos r_cluster_trend (ascii ''clustering'') (ascii ''t1'')] =
     Inr clusters_and_trend \<and>
   analysis_history clusters_and_trend \<noteq> [] \<and>
   tracked clusters_and_trend has_clusters \<and>
   tracked clusters_and_trend has_temporal_patterns \<and>
   str_contains header6 (generate_comprehensive_conclusions remdups_first clusters_and_trend) \<and>
   str_contains header7 (generate_comprehensive_conclusions remdups_first clusters_and_trend) \<and>
   \<not> tracked clusters_and_trend has_correlations \<and>
   str_contains (join [10] [header5, independent_line, []])
     (generate_comprehensive_conclusions remdups_first clusters_and_trend) \<and>
   \<not> tracked clusters_and_trend has_outliers \<and>
   \<not> tracked clusters_and_trend many_outliers \<and>
   \<not> tracked clusters_and_trend asymmetric_distributions \<and>
   str_contains (join [10] [header4, good_quality_line, []])
     (generate_comprehensive_conclusions remdups_first clusters_and_trend) \<and>
   take 8 (remdups_first (concat (map recommendations (analysis_history clusters_and_trend)))) = [] \<and>
   str_contains (join [10] [header8, keep_exploring_line, []])
     (generate_comprehensive_conclusions remdups_first clusters_and_trend) \<and>
   analysis_history one_analysis \<noteq> [] \<and>
   global_patterns one_analysis = [] \<and>
   str_contains (join [10] [header2, no_patterns_line, []])
     (generate_comprehensive_conclusions remdups_first one_analysis) \<and>
   list_all (\<lambda>item. i_key_findings (snd item) = []) (data_insights one_analysis) \<and>
   str_contains (join [10] [header3, [], header4])
     (generate_comprehensive_conclusions remdups_first one_analysis)"
proof -
  let ?A = "generate_comprehensive_conclusions remdups_first clusters_and_trend"
  let ?B = "generate_comprehensive_conclusions remdups_first one_analysis"
  have run: "session_run 100
      [AddAnalysis q_grupos r_cluster_trend (ascii ''clustering'') (ascii ''t1'')] =
      Inr clusters_and_trend"
    by code_simp
  have hist: "analysis_history clusters_and_trend \<noteq> []"
    by (simp add: clusters_and_trend_def)
  have clusters: "tracked clusters_and_trend has_clusters" by code_simp
  have temporal: "tracked clusters_and_trend has_temporal_patterns" by code_simp
  have corr: "\<not> tracked clusters_and_trend has_correlations" by code_simp
  have out: "\<not> tracked clusters_and_trend has_outliers" by code_simp
  have many: "\<not> tracked clusters_and_trend many_outliers" by code_simp
  have asym: "\<not> tracked clusters_and_trend asymmetric_distributions" by code_simp
  have recs: "take 8 (remdups_first (concat (map recommendations
      (analysis_history clusters_and_trend)))) = []"
    by code_simp
  have hist1: "analysis_history one_analysis \<noteq> []"
    by (simp add: one_analysis_def)
  have none: "global_patterns one_analysis = []"
    by (simp add: one_analysis_def)
  have bare: "list_all (\<lambda>item. i_key_findings (snd item) = []) (data_insights one_analysis)"
    by (simp add: one_analysis_def)
  note a = conclusions_sections [OF hist, of remdups_first]
  note b = conclusions_sections [OF hist1, of remdups_first]
  from a have "tracked clusters_and_trend has_clusters \<longrightarrow>
      str_contains header6 ?A \<and> str_contains (join [10] section6_lines) ?A"
    by (elim conjE)
  with clusters have "str_contains header6 ?A \<and> str_contains (join [10] section6_lines) ?A"
    by (rule rev_mp)
  then have h6: "str_contains header6 ?A" by (rule conjunct1)
  from a have "tracked clusters_and_trend has_temporal_patterns \<longrightarrow>
      str_contains header7 ?A \<and> str_contains (join [10] section7_lines) ?A"
    by (elim conjE)
  with temporal have "str_contains header7 ?A \<and> str_contains (join [10] section7_lines) ?A"
    by (rule rev_mp)
  then have h7: "str_contains header7 ?A" by (rule conjunct1)
  from a have "\<not> tracked clusters_and_trend has_correlations \<longrightarrow>
      str_contains (join [10] [header5, independent_line, []]) ?A"
    by (elim conjE)
  with corr have f5: "str_contains (join [10] [header5, independent_line, []]) ?A"
    by (rule rev_mp)
  have quality: "\<not> tracked clusters_and_trend has_outliers \<and>
      \<not> tracked clusters_and_trend many_outliers \<and>
      \<not> tracked clusters_and_trend asymmetric_distributions"
    by (intro conjI) (rule out many asym)+
  from a have "\<not> tracked clusters_and_trend has_outliers \<and>
      \<not> tracked clusters_and_trend many_outliers \<and>
      \<not> tracked clusters_and_trend asymmetric_distributions \<longrightarrow>
      str_contains (join [10] [header4, good_quality_line, []]) ?A"
    by (elim conjE)
  with quality have f4: "str_contains (join [10] [header4, good_quality_line, []]) ?A"
    by (rule rev_mp)
  from a have "take 8 (remdups_first (concat (map recommendations
      (analysis_history clusters_and_trend)))) = [] \<longrightarrow>
      str_contains (join [10] [header8, keep_exploring_line, []]) ?A"
    by (elim conjE)
  with recs have f8: "str_contains (join [10] [header8, keep_exploring_line, []]) ?A"
    by (rule rev_mp)
  from b have "global_patterns one_analysis = [] \<longrightarrow>
      str_contains (join [10] [header2, no_patterns_line, []]) ?B"
    by (elim conjE)
  with none have f2: "str_contains (join [10] [header2, no_patterns_line, []]) ?B"
    by (rule rev_mp)
  from b have "list_all (\<lambda>item. i_key_findings (snd item) = []) (data_insights one_analysis) \<longrightarrow>
      str_contains (join [10] [header3, [], header4]) ?B"
    by (elim conjE)
  with bare have f3: "str_contains (join [10] [header3, [], header4]) ?B"
    by (rule rev_mp)
  show ?thesis
    by (intro conjI)
       (rule run hist clusters temporal h6 h7 corr f5 out many asym f4 recs f8 hist1 none f2
          bare f3)+
qed

text \<open>
  After one analysis that finds no pattern, the conclusions hold neither the header of
  section 6 nor that of section 7 (the text has no digit 6 or 7 at all), and section 3 is
  its header and an empty line, with no fallback text before the header of section 4.
\<close>

theorem conclusions_sections_counterexample:
  "session_run 100
     [AddAnalysis q_dados \<lparr>analysis = None, plots = None\<rparr> (ascii ''general'') (ascii ''t1'')] =
     Inr one_analysis \<and>
   analysis_history one_analysis \<noteq> [] \<and>
   \<not> str_contains header6 (generate_comprehensive_conclusions remdups_first one_analysis) \<and>
   \<not> str_contains header7 (generate_comprehensive_conclusions remdups_first one_analysis) \<and>
   str_contains (join [10] [header3, [], header4])
     (generate_comprehensive_conclusions remdups_first one_analysis)"
proof -
  let ?out = "generate_comprehensive_conclusions remdups_first one_analysis"
  have run: "session_run 100
     [AddAnalysis q_dados \<lparr>analysis = None, plots = None\<rparr> (ascii ''general'') (ascii ''t1'')] =
     Inr one_analysis"
    by code_simp
  have hist: "analysis_history one_analysis \<noteq> []"
    by (simp add: one_analysis_def)
  have "list_all (\<lambda>c. c \<noteq> 54 \<and> c \<noteq> 55) ?out"
    by code_simp
  then have no_digit: "54 \<notin> set ?out" "55 \<notin> set ?out"
    by (auto simp: list_all_iff)
  have "54 \<in> set header6" and "55 \<in> set header7"
    by (simp_all add: header6_def header7_def ascii_def)
  with no_digit have absent: "\<not> sublist header6 ?out" "\<not> sublist header7 ?out"
    using set_mono_sublist by blast+
  have "list_all (\<lambda>item. i_key_findings (snd item) = []) (data_insights one_analysis)"
    by (simp add: one_analysis_def)
  then have "sublist [header3, [], header4] (conclusions remdups_first one_analysis)"
    by (rule section3_then_4)
  with hist have bare: "str_contains (join [10] [header3, [], header4]) ?out"
    by (rule report_contains_lines)
  from run hist absent bare show ?thesis
    by (simp only: str_contains_def simp_thms)
qed

end
